theory Spec2Isabelle
  imports Complex_Main "HOL-Library.AList" "HOL-Library.Sublist"
begin

section \<open>Floating-point values\<close>

text \<open>
  A Python/numpy float is either a finite number or one of the three special values.
  Arithmetic on finite values is taken to be exact (no rounding, overflow or underflow,
  one zero); the special values follow the IEEE rules, which is what decides every
  \<^verbatim>\<open>isnan\<close>/\<^verbatim>\<open>isinf\<close> test and every comparison of the source.
\<close>

datatype pyfloat = Fin real | PInf | NInf | NaN

fun isnan :: "pyfloat \<Rightarrow> bool" where
  "isnan NaN = True"
| "isnan _ = False"

fun isinf :: "pyfloat \<Rightarrow> bool" where
  "isinf PInf = True"
| "isinf NInf = True"
| "isinf _ = False"


text \<open>\<^verbatim>\<open>a < b\<close> and \<^verbatim>\<open>a > b\<close>: every comparison with NaN is false.\<close>

fun flt :: "pyfloat \<Rightarrow> pyfloat \<Rightarrow> bool" where
  "flt NaN _ = False"
| "flt _ NaN = False"
| "flt (Fin a) (Fin b) = (a < b)"
| "flt (Fin _) PInf = True"
| "flt (Fin _) NInf = False"
| "flt PInf _ = False"
| "flt NInf NInf = False"
| "flt NInf _ = True"

definition fgt :: "pyfloat \<Rightarrow> pyfloat \<Rightarrow> bool" where
  "fgt a b = flt b a"


fun fadd :: "pyfloat \<Rightarrow> pyfloat \<Rightarrow> pyfloat" where
  "fadd NaN _ = NaN"
| "fadd _ NaN = NaN"
| "fadd (Fin a) (Fin b) = Fin (a + b)"
| "fadd PInf NInf = NaN"
| "fadd NInf PInf = NaN"
| "fadd PInf _ = PInf"
| "fadd NInf _ = NInf"
| "fadd (Fin _) b = b"

text \<open>The sign of a non-NaN value, as a real: 1, 0 or -1.\<close>

fun fsign :: "pyfloat \<Rightarrow> real" where
  "fsign (Fin a) = sgn a"
| "fsign PInf = 1"
| "fsign NInf = - 1"
| "fsign NaN = 0"

definition inf_of_sign :: "real \<Rightarrow> pyfloat" where
  "inf_of_sign s = (if s = 0 then NaN else if 0 < s then PInf else NInf)"

fun fmul :: "pyfloat \<Rightarrow> pyfloat \<Rightarrow> pyfloat" where
  "fmul NaN _ = NaN"
| "fmul _ NaN = NaN"
| "fmul (Fin a) (Fin b) = Fin (a * b)"
| "fmul a b = inf_of_sign (fsign a * fsign b)"

text \<open>
  numpy division: a finite non-zero value over zero is an infinity, zero over zero
  and infinity over infinity are NaN; none of them raises.
\<close>

fun fdiv :: "pyfloat \<Rightarrow> pyfloat \<Rightarrow> pyfloat" where
  "fdiv NaN _ = NaN"
| "fdiv _ NaN = NaN"
| "fdiv (Fin a) (Fin b) = (if b = 0 then inf_of_sign (sgn a) else Fin (a / b))"
| "fdiv (Fin _) _ = Fin 0"
| "fdiv a (Fin b) = inf_of_sign (fsign a * (if b < 0 then - 1 else 1))"
| "fdiv _ _ = NaN"

fun fsqrt :: "pyfloat \<Rightarrow> pyfloat" where
  "fsqrt (Fin a) = (if a < 0 then NaN else Fin (sqrt a))"
| "fsqrt PInf = PInf"
| "fsqrt _ = NaN"

type_synonym vector = "pyfloat list"

text \<open>\<^verbatim>\<open>x != 0\<close> on a float: true for every value but zero (also for NaN).\<close>

definition fnonzero :: "pyfloat \<Rightarrow> bool" where
  "fnonzero x = (x \<noteq> Fin 0)"

section \<open>numpy on one-dimensional arrays\<close>

datatype np_error = ShapeMismatch nat nat

text \<open>\<^verbatim>\<open>np.dot(a, b)\<close>: raises when the lengths differ, else the sum of the products.\<close>

definition np_dot :: "vector \<Rightarrow> vector \<Rightarrow> np_error + pyfloat" where
  "np_dot a b =
     (if length a \<noteq> length b then Inl (ShapeMismatch (length a) (length b))
      else Inr (foldl fadd (Fin 0) (map2 fmul a b)))"

text \<open>\<^verbatim>\<open>np.linalg.norm(a)\<close>: the square root of the sum of the squares.\<close>

definition np_norm :: "vector \<Rightarrow> pyfloat" where
  "np_norm a = fsqrt (foldl fadd (Fin 0) (map2 fmul a a))"

section \<open>The dimension-aware vector store\<close>

text \<open>Metadata values are scalars; a metadata dict keeps its insertion order.\<close>

datatype scalar = SStr string | SInt int | SFloat pyfloat | SBool bool | SNone

type_synonym metadata_t = "(string \<times> scalar) list"

text \<open>The JSON document written to and read from object storage.\<close>

record vector_data =
  vd_id :: string
  vd_vector :: vector
  vd_metadata :: "metadata_t option"

text \<open>
  Every \<^verbatim>\<open>raise\<close> of the class, and the built-in \<^verbatim>\<open>KeyError\<close> that escapes it.
  The class raises plain \<^verbatim>\<open>Exception\<close>s told apart by their message only.
\<close>

datatype vs_error =
    VectorEmpty
  | VectorAllZeros
  | UnsupportedDim nat "nat list"
  | DimTooSmall nat
  | SaveFailed string
  | QueryDimMismatch nat int
  | KeyError nat

text \<open>
  A dict is an association list in insertion order: assigning to a present key keeps
  its position, assigning to a new key appends (\<^const>\<open>AList.update\<close>), \<^verbatim>\<open>del\<close> is
  \<^const>\<open>AList.delete\<close>. \<open>s3_objects\<close> are the objects this store has written.
\<close>

record store =
  vectors_by_dimension :: "(nat \<times> (string \<times> vector) list) list"
  metadata :: "(string \<times> metadata_t) list"
  s3_objects :: "(string \<times> vector_data) list"

definition supported_dimensions :: "nat list" where
  "supported_dimensions = [256, 384, 1024, 3072]"

text \<open>\<^verbatim>\<open>__init__\<close>: four empty shards, no metadata.\<close>

definition init_store :: store where
  "init_store = \<lparr> vectors_by_dimension = map (\<lambda>d. (d, [])) supported_dimensions,
                  metadata = [],
                  s3_objects = [] \<rparr>"

text \<open>\<^verbatim>\<open>str(n)\<close> for a non-negative integer.\<close>

definition digit_char :: "nat \<Rightarrow> char" where
  "digit_char n = ''0123456789'' ! n"

fun str_nat :: "nat \<Rightarrow> string" where
  "str_nat n = (if n < 10 then [digit_char n] else str_nat (n div 10) @ [digit_char (n mod 10)])"

declare str_nat.simps [simp del]

text \<open>\<^verbatim>\<open>f"vectors/{dimension}/{id}.json"\<close>\<close>

definition s3_key :: "nat \<Rightarrow> string \<Rightarrow> string" where
  "s3_key dimension ident = ''vectors/'' @ str_nat dimension @ ''/'' @ ident @ ''.json''"

text \<open>\<^verbatim>\<open>{**metadata, 'dimension': dimension}\<close>\<close>

definition metadata_with_dim :: "metadata_t \<Rightarrow> nat \<Rightarrow> metadata_t" where
  "metadata_with_dim md dimension = AList.update ''dimension'' (SInt (int dimension)) md"

text \<open>\<^verbatim>\<open>self.vectors_by_dimension[dimension][id] = vector\<close>, for a dimension that is a key.\<close>

definition shard_of :: "store \<Rightarrow> nat \<Rightarrow> (string \<times> vector) list" where
  "shard_of st dimension = (case map_of (vectors_by_dimension st) dimension of
                              None \<Rightarrow> [] | Some sh \<Rightarrow> sh)"

definition set_shard :: "store \<Rightarrow> nat \<Rightarrow> (string \<times> vector) list \<Rightarrow> store" where
  "set_shard st dimension sh =
     st\<lparr>vectors_by_dimension := AList.update dimension sh (vectors_by_dimension st)\<rparr>"

text \<open>Lines 49-54 of \<^verbatim>\<open>add_vector\<close>: the record enters the shard and the metadata dict.\<close>

definition add_to_memory :: "store \<Rightarrow> string \<Rightarrow> vector \<Rightarrow> metadata_t \<Rightarrow> store" where
  "add_to_memory st ident v md =
     (let dimension = length v;
          st1 = set_shard st dimension (AList.update ident v (shard_of st dimension))
      in st1\<lparr>metadata := AList.update ident (metadata_with_dim md dimension) (metadata st1)\<rparr>)"

text \<open>The handler of lines 73-79: the id is deleted from the shard and from the metadata.\<close>

definition remove_from_memory :: "store \<Rightarrow> string \<Rightarrow> nat \<Rightarrow> store" where
  "remove_from_memory st ident dimension =
     (let st1 = set_shard st dimension (AList.delete ident (shard_of st dimension))
      in st1\<lparr>metadata := AList.delete ident (metadata st1)\<rparr>)"

text \<open>
  The checks of lines 35-47, in the order of the source.
\<close>

definition validate_vector :: "store \<Rightarrow> vector \<Rightarrow> vs_error option" where
  "validate_vector st v =
     (if v = [] then Some VectorEmpty
      else if \<not> list_ex fnonzero v then Some VectorAllZeros
      else if length v \<notin> set (map fst (vectors_by_dimension st))
        then Some (UnsupportedDim (length v) (map fst (vectors_by_dimension st)))
      else if length v < 100 then Some (DimTooSmall (length v))
      else None)"

text \<open>
  \<^verbatim>\<open>add_vector\<close>. \<open>put_outcome\<close> is what \<^verbatim>\<open>put_object\<close> (with \<^verbatim>\<open>json.dumps\<close>) does on
  this call: \<open>None\<close> when it succeeds, the text of the exception when it raises.
  The result is the exception raised, if any, and the store after the call.
\<close>

definition add_vector ::
  "string option \<Rightarrow> store \<Rightarrow> string \<Rightarrow> vector \<Rightarrow> metadata_t \<Rightarrow> vs_error option \<times> store" where
  "add_vector put_outcome st ident v md =
     (case validate_vector st v of
        Some e \<Rightarrow> (Some e, st)
      | None \<Rightarrow>
         (let dimension = length v;
              st1 = add_to_memory st ident v md;
              body = \<lparr> vd_id = ident, vd_vector = v,
                       vd_metadata = Some (metadata_with_dim md dimension) \<rparr>
          in case put_outcome of
               None \<Rightarrow>
                 (None, st1\<lparr>s3_objects :=
                              AList.update (s3_key dimension ident) body (s3_objects st1)\<rparr>)
             | Some msg \<Rightarrow>
                 (Some (SaveFailed msg), remove_from_memory st1 ident dimension)))"

text \<open>
  The error names of the specification, for the messages of the source: ``Vector is
  empty'', ``Vector contains all zeros'' and ``Vector dimension too small'' are invalid
  vectors, ``Unsupported dimension'' is an unsupported dimension, ``Failed to save
  vector to S3'' is a persistence error.
\<close>

datatype error_kind =
  InvalidVector | UnsupportedDimension | PersistenceError | DimensionMismatch | Unhandled

fun kind_of :: "vs_error \<Rightarrow> error_kind" where
  "kind_of VectorEmpty = InvalidVector"
| "kind_of VectorAllZeros = InvalidVector"
| "kind_of (DimTooSmall _) = InvalidVector"
| "kind_of (UnsupportedDim _ _) = UnsupportedDimension"
| "kind_of (SaveFailed _) = PersistenceError"
| "kind_of (QueryDimMismatch _ _) = DimensionMismatch"
| "kind_of (KeyError _) = Unhandled"


text \<open>
  \<^verbatim>\<open>cosine_similarity\<close> of the store: the norms are taken and tested first, the
  product is formed only when neither is zero, and a quotient that is NaN or infinite
  is replaced by 0.
\<close>

definition cosine_similarity :: "vector \<Rightarrow> vector \<Rightarrow> np_error + pyfloat" where
  "cosine_similarity vec1 vec2 =
     (let norm1 = np_norm vec1; norm2 = np_norm vec2
      in if norm1 = Fin 0 \<or> norm2 = Fin 0 then Inr (Fin 0)
         else case np_dot vec1 vec2 of
                Inl e \<Rightarrow> Inl e
              | Inr d \<Rightarrow>
                  (let similarity = fdiv d (fmul norm1 norm2)
                   in if isnan similarity \<or> isinf similarity then Inr (Fin 0)
                      else Inr similarity))"

text \<open>\<^verbatim>\<open>s.endswith(suf)\<close> and \<^verbatim>\<open>s.startswith(pre)\<close>\<close>

definition endswith :: "'a list \<Rightarrow> 'a list \<Rightarrow> bool" where
  "endswith s suf = (length suf \<le> length s \<and> drop (length s - length suf) s = suf)"

definition startswith :: "'a list \<Rightarrow> 'a list \<Rightarrow> bool" where
  "startswith s pre = (take (length pre) s = pre)"

text \<open>
  What object storage answers to \<^verbatim>\<open>load_vectors_by_dimension\<close>: the listing raised
  (\<open>Inl\<close>), it has no \<^verbatim>\<open>Contents\<close> (\<open>None\<close>), or it names objects, each with the outcome
  of reading and decoding it (\<open>Inl\<close> when \<^verbatim>\<open>get_object\<close>, \<^verbatim>\<open>json.loads\<close> or the lookup of
  \<^verbatim>\<open>id\<close> or \<^verbatim>\<open>vector\<close> raised). A document without \<^verbatim>\<open>metadata\<close> has \<open>vd_metadata = None\<close>.
\<close>

type_synonym load_response = "string + (string \<times> (string + vector_data)) list option"

fun load_object :: "nat \<Rightarrow> store \<Rightarrow> string \<times> (string + vector_data) \<Rightarrow> store" where
  "load_object dimension st (key, got) =
     (if endswith key ''.json'' then
        (case got of
           Inl _ \<Rightarrow> st
         | Inr vd \<Rightarrow>
             (let st1 = set_shard st dimension
                          (AList.update (vd_id vd) (vd_vector vd) (shard_of st dimension))
              in case vd_metadata vd of
                   None \<Rightarrow> st1
                 | Some md \<Rightarrow> st1\<lparr>metadata := AList.update (vd_id vd) md (metadata st1)\<rparr>))
      else st)"

definition load_vectors_by_dimension :: "load_response \<Rightarrow> store \<Rightarrow> nat \<Rightarrow> store" where
  "load_vectors_by_dimension resp st dimension =
     (case resp of
        Inl _ \<Rightarrow> st
      | Inr None \<Rightarrow> st
      | Inr (Some objs) \<Rightarrow> foldl (load_object dimension) st objs)"

record search_result =
  res_id :: string
  res_similarity :: pyfloat
  res_metadata :: metadata_t

text \<open>
  The body of the loop of \<^verbatim>\<open>search\<close>: an exception of the similarity is caught and
  the vector skipped, a NaN or infinite similarity is skipped.
\<close>

definition score_entry :: "store \<Rightarrow> vector \<Rightarrow> string \<times> vector \<Rightarrow> search_result list" where
  "score_entry st query_vector entry =
     (case cosine_similarity query_vector (snd entry) of
        Inl _ \<Rightarrow> []
      | Inr s \<Rightarrow>
          if \<not> (isnan s \<or> isinf s)
          then [\<lparr> res_id = fst entry, res_similarity = s,
                  res_metadata = (case map_of (metadata st) (fst entry) of
                                    None \<Rightarrow> [] | Some m \<Rightarrow> m) \<rparr>]
          else [])"

text \<open>
  \<^verbatim>\<open>xs.sort(key=..., reverse=True)\<close> on float keys. Python's sort is stable, compares
  keys with \<^verbatim>\<open><\<close> only, and with \<^verbatim>\<open>reverse=True\<close> keeps equal elements in their
  original order: on keys without NaN its result is that of this insertion sort.
\<close>

fun insert_desc :: "('a \<Rightarrow> pyfloat) \<Rightarrow> 'a \<Rightarrow> 'a list \<Rightarrow> 'a list" where
  "insert_desc key x [] = [x]"
| "insert_desc key x (y # ys) =
     (if flt (key x) (key y) then y # insert_desc key x ys else x # y # ys)"

definition sort_desc :: "('a \<Rightarrow> pyfloat) \<Rightarrow> 'a list \<Rightarrow> 'a list" where
  "sort_desc key xs = foldr (insert_desc key) xs []"

text \<open>\<^verbatim>\<open>xs[:k]\<close>: a negative \<open>k\<close> counts from the end.\<close>

definition slice_to :: "int \<Rightarrow> 'a list \<Rightarrow> 'a list" where
  "slice_to k xs = (if 0 \<le> k then take (nat k) xs
                    else take (nat (int (length xs) + k)) xs)"

definition scored :: "store \<Rightarrow> vector \<Rightarrow> nat \<Rightarrow> search_result list" where
  "scored st query_vector dimension =
     concat (map (score_entry st query_vector) (shard_of st dimension))"

text \<open>
  \<^verbatim>\<open>search\<close>: the result or the exception raised, and the store after the call (the
  shard may have been loaded). \<open>search_in_dimension\<close> is the body from line 102 on, in
  which the search dimension is the length of the query either way.
\<close>

definition search_in_dimension ::
  "load_response \<Rightarrow> store \<Rightarrow> vector \<Rightarrow> int \<Rightarrow> nat
     \<Rightarrow> (vs_error + search_result list) \<times> store" where
  "search_in_dimension resp st query_vector top_k search_dimension =
     (case map_of (vectors_by_dimension st) search_dimension of
        None \<Rightarrow> (Inl (KeyError search_dimension), st)
      | Some sh \<Rightarrow>
          (let st1 = (if sh = [] then load_vectors_by_dimension resp st search_dimension
                      else st)
           in if shard_of st1 search_dimension = [] then (Inr [], st1)
              else (Inr (slice_to top_k
                           (sort_desc res_similarity
                              (scored st1 query_vector search_dimension))),
                    st1)))"

definition search ::
  "load_response \<Rightarrow> store \<Rightarrow> vector \<Rightarrow> int \<Rightarrow> int option
     \<Rightarrow> (vs_error + search_result list) \<times> store" where
  "search resp st query_vector top_k target_dimension =
     (let query_dimension = length query_vector
      in case target_dimension of
           Some td \<Rightarrow>
             if int query_dimension \<noteq> td
             then (Inl (QueryDimMismatch query_dimension td), st)
             else search_in_dimension resp st query_vector top_k query_dimension
         | None \<Rightarrow> search_in_dimension resp st query_vector top_k query_dimension)"

text \<open>The keys of the outer dict are fixed by \<^verbatim>\<open>__init__\<close> and never change.\<close>

definition wf_store :: "store \<Rightarrow> bool" where
  "wf_store st = (map fst (vectors_by_dimension st) = supported_dimensions)"



section \<open>The matching step of the highlight extractor\<close>

text \<open>
  A Python \<^verbatim>\<open>str\<close> of free text (theme, criteria, analysis, highlight point) is the
  list of its code points. \<open>asc\<close> turns an ASCII literal into such a list.
\<close>

type_synonym pystr = "nat list"

definition asc :: "string \<Rightarrow> pystr" where
  "asc s = map of_char s"

text \<open>The code points for which \<^verbatim>\<open>str.isspace\<close> holds: what \<^verbatim>\<open>str.strip()\<close> removes.\<close>

definition is_space :: "nat \<Rightarrow> bool" where
  "is_space c = ((9 \<le> c \<and> c \<le> 13) \<or> (28 \<le> c \<and> c \<le> 32) \<or> c = 133 \<or> c = 160 \<or>
                 c = 5760 \<or> (8192 \<le> c \<and> c \<le> 8202) \<or> c = 8232 \<or> c = 8233 \<or>
                 c = 8239 \<or> c = 8287 \<or> c = 12288)"

definition strip :: "pystr \<Rightarrow> pystr" where
  "strip s = rev (dropWhile is_space (rev (dropWhile is_space s)))"

text \<open>\<^verbatim>\<open>s.split(sep)\<close> for a separator of one character: never the empty list.\<close>

fun split_on :: "nat \<Rightarrow> pystr \<Rightarrow> pystr list" where
  "split_on sep [] = [[]]"
| "split_on sep (c # cs) =
     (if c = sep then [] # split_on sep cs
      else (case split_on sep cs of
              [] \<Rightarrow> [[c]]
            | l # ls \<Rightarrow> (c # l) # ls))"

definition point_prefixes :: "pystr list" where
  "point_prefixes = map asc [''A.'', ''B.'', ''C.'', ''D.'', ''E.'', ''F.'', ''G.'', ''H.'',
                             ''I.'', ''J.'']"

text \<open>Lines 624-626 of \<^verbatim>\<open>match_clips\<close>: the stripped lines that begin with a marker.\<close>

definition extract_points :: "pystr \<Rightarrow> pystr list" where
  "extract_points analysis =
     map strip
       (filter (\<lambda>line. strip line \<noteq> [] \<and> list_ex (startswith (strip line)) point_prefixes)
          (split_on 10 analysis))"

text \<open>
  A candidate clip as \<^verbatim>\<open>extract_clips_with_embeddings\<close> builds it, and the copy that
  \<^verbatim>\<open>match_clips\<close> makes of it with the similarity and the point added.
\<close>

record clip =
  video_source :: string
  output_dir :: string
  timestamp :: int
  duration :: int
  index :: int
  embedding :: "vector option"
  path :: "string option"

record sel_clip = clip +
  similarity :: pyfloat
  point :: pystr

text \<open>
  The exceptions that leave the extractor: one raised by an external call (a model
  invocation, a subprocess, a file operation), with its text; the \<^verbatim>\<open>ValueError\<close> of
  \<^verbatim>\<open>np.dot\<close>; the \<^verbatim>\<open>AttributeError\<close> of a method call on \<^verbatim>\<open>None\<close>; and the one that
  \<^verbatim>\<open>create_highlight_video\<close> raises on an empty selection.
\<close>

datatype hl_error =
    EmbeddingError string
  | NumpyError np_error
  | ExtractError string
  | AnalysisError string
  | SegmentationError string
  | AttributeError
  | NoClipsToStitch
  | StitchError string

text \<open>\<^verbatim>\<open>cosine_similarity\<close> of the extractor: the quotient, with no guard.\<close>

definition he_cosine_similarity :: "vector \<Rightarrow> vector \<Rightarrow> np_error + pyfloat" where
  "he_cosine_similarity a b =
     (case np_dot a b of
        Inl e \<Rightarrow> Inl e
      | Inr d \<Rightarrow> Inr (fdiv d (fmul (np_norm a) (np_norm b))))"

definition clip_copy :: "clip \<Rightarrow> pyfloat \<Rightarrow> pystr \<Rightarrow> sel_clip" where
  "clip_copy c s pt = clip.extend c (sel_clip.fields s pt)"

text \<open>\<^verbatim>\<open>valid_clips\<close>: the clips with an embedding, each with that embedding.\<close>

definition valid_clips :: "clip list \<Rightarrow> (clip \<times> vector) list" where
  "valid_clips clips =
     concat (map (\<lambda>c. case embedding c of None \<Rightarrow> [] | Some e \<Rightarrow> [(c, e)]) clips)"

text \<open>The inner loop, lines 645-653: the pairs above the threshold, or the exception.\<close>

fun score_clips ::
  "pyfloat \<Rightarrow> pystr \<Rightarrow> vector \<Rightarrow> (clip \<times> vector) list \<Rightarrow> np_error + (pyfloat \<times> sel_clip) list"
where
  "score_clips threshold pt text_emb [] = Inr []"
| "score_clips threshold pt text_emb ((c, video_emb) # cs) =
     (case he_cosine_similarity text_emb video_emb of
        Inl e \<Rightarrow> Inl e
      | Inr s \<Rightarrow>
          (case score_clips threshold pt text_emb cs of
             Inl e \<Rightarrow> Inl e
           | Inr rest \<Rightarrow>
               Inr ((if fgt s threshold then [(s, clip_copy c s pt)] else []) @ rest)))"

text \<open>
  The loop over the points, lines 637-664. \<open>get_embedding\<close> is the outcome of the
  embedding call for a point: the vector, or the text of the exception, which
  \<^verbatim>\<open>get_embedding\<close> prints and raises again.
\<close>

fun match_points ::
  "(pystr \<Rightarrow> string + vector) \<Rightarrow> pyfloat \<Rightarrow> int \<Rightarrow> (clip \<times> vector) list \<Rightarrow> pystr list
     \<Rightarrow> hl_error + sel_clip list"
where
  "match_points get_embedding threshold top_k_per_point vcs [] = Inr []"
| "match_points get_embedding threshold top_k_per_point vcs (pt # pts) =
     (case get_embedding pt of
        Inl msg \<Rightarrow> Inl (EmbeddingError msg)
      | Inr text_emb \<Rightarrow>
          (case score_clips threshold pt text_emb vcs of
             Inl e \<Rightarrow> Inl (NumpyError e)
           | Inr clip_similarities \<Rightarrow>
               (case match_points get_embedding threshold top_k_per_point vcs pts of
                  Inl e \<Rightarrow> Inl e
                | Inr rest \<Rightarrow>
                    Inr (map snd (slice_to top_k_per_point (sort_desc fst clip_similarities))
                         @ rest))))"

text \<open>Lines 670-677: the first clip of every index, in the order of the list.\<close>

fun unique_by_index :: "int list \<Rightarrow> sel_clip list \<Rightarrow> sel_clip list" where
  "unique_by_index seen_indices [] = []"
| "unique_by_index seen_indices (c # cs) =
     (if index c \<notin> set seen_indices then c # unique_by_index (index c # seen_indices) cs
      else unique_by_index seen_indices cs)"

definition unique_clips_of :: "sel_clip list \<Rightarrow> sel_clip list" where
  "unique_clips_of selected_clips = unique_by_index [] (sort_key timestamp selected_clips)"

text \<open>
  The body of the loop of lines 681-695: the first accepted clip within 3 seconds of
  the new one decides; the new clip takes its place when its similarity is higher, is
  dropped otherwise, and is appended when there is no such clip.
\<close>

definition overlap_step :: "sel_clip list \<Rightarrow> sel_clip \<Rightarrow> sel_clip list" where
  "overlap_step filtered_clips c =
     (case find (\<lambda>selected. \<bar>timestamp c - timestamp selected\<bar> < 3) filtered_clips of
        None \<Rightarrow> filtered_clips @ [c]
      | Some selected \<Rightarrow>
          if fgt (similarity c) (similarity selected)
          then remove1 selected filtered_clips @ [c]
          else filtered_clips)"

definition filter_overlaps :: "sel_clip list \<Rightarrow> sel_clip list" where
  "filter_overlaps unique_clips = foldl overlap_step [] unique_clips"

text \<open>\<^verbatim>\<open>format(i, '04d')\<close> and \<^verbatim>\<open>os.path.join(dir, name)\<close> for a relative name.\<close>

definition zero_pad :: "nat \<Rightarrow> string \<Rightarrow> string" where
  "zero_pad w s = replicate (w - length s) CHR ''0'' @ s"

definition format_04d :: "int \<Rightarrow> string" where
  "format_04d i = (if 0 \<le> i then zero_pad 4 (str_nat (nat i))
                   else CHR ''-'' # zero_pad 3 (str_nat (nat (- i))))"

definition path_join :: "string \<Rightarrow> string \<Rightarrow> string" where
  "path_join dir name = (if dir = [] \<or> endswith dir ''/'' then dir @ name
                         else dir @ ''/'' @ name)"

definition clip_path :: "sel_clip \<Rightarrow> string" where
  "clip_path c = path_join (output_dir c) (''clip_'' @ format_04d (index c) @ ''.mp4'')"

text \<open>
  Lines 701-720: every selected clip without a file is cut out by a subprocess, whose
  failure is an exception. \<open>run_extract\<close> is the outcome of that subprocess for a clip.
\<close>

fun materialize :: "(sel_clip \<Rightarrow> string option) \<Rightarrow> sel_clip list \<Rightarrow> hl_error + sel_clip list" where
  "materialize run_extract [] = Inr []"
| "materialize run_extract (c # cs) =
     (if path c = None then
        (case run_extract c of
           Some msg \<Rightarrow> Inl (ExtractError msg)
         | None \<Rightarrow>
             (case materialize run_extract cs of
                Inl e \<Rightarrow> Inl e
              | Inr rest \<Rightarrow> Inr (c\<lparr>path := Some (clip_path c)\<rparr> # rest)))
      else
        (case materialize run_extract cs of
           Inl e \<Rightarrow> Inl e
         | Inr rest \<Rightarrow> Inr (c # rest)))"

definition match_clips ::
  "(pystr \<Rightarrow> string + vector) \<Rightarrow> (sel_clip \<Rightarrow> string option) \<Rightarrow> pystr \<Rightarrow> clip list
     \<Rightarrow> pyfloat \<Rightarrow> int \<Rightarrow> hl_error + sel_clip list" where
  "match_clips get_embedding run_extract analysis clips threshold top_k_per_point =
     (case match_points get_embedding threshold top_k_per_point (valid_clips clips)
             (extract_points analysis) of
        Inl e \<Rightarrow> Inl e
      | Inr selected_clips \<Rightarrow>
          materialize run_extract
            (sort_key timestamp (filter_overlaps (unique_clips_of selected_clips))))"

text \<open>Two clips are apart when their start offsets differ by at least 3 seconds.\<close>

definition apart :: "sel_clip \<Rightarrow> sel_clip \<Rightarrow> bool" where
  "apart a b = (3 \<le> \<bar>timestamp a - timestamp b\<bar>)"

text \<open>
  Lines 341-353 of \<^verbatim>\<open>extract_clips_with_embeddings\<close>: one clip for every segment that the
  embedding model returned, at offset \<^verbatim>\<open>i * segment_duration\<close>, with no file yet.
\<close>

definition make_clip :: "string \<Rightarrow> string \<Rightarrow> int \<Rightarrow> nat \<Rightarrow> vector option \<Rightarrow> clip" where
  "make_clip video_path out_dir segment_duration i seg_embedding =
     \<lparr> video_source = video_path, output_dir = out_dir,
       timestamp = int i * segment_duration, duration = segment_duration,
       index = int i, embedding = seg_embedding, path = None \<rparr>"

definition build_clips :: "string \<Rightarrow> string \<Rightarrow> int \<Rightarrow> vector option list \<Rightarrow> clip list" where
  "build_clips video_path out_dir segment_duration segments_data =
     map (\<lambda>(i, seg). make_clip video_path out_dir segment_duration i seg)
       (enumerate 0 segments_data)"

section \<open>The six stages of a highlight job\<close>

text \<open>
  What the outside world answers to a job. Every external call is given by its outcome:
  a result, or the text of the exception that it raises.
  \<^item> \<open>env_invoke_criteria\<close>: the model call of \<^verbatim>\<open>generate_criteria\<close> and the decoding of
    its response, for a theme;
  \<^item> \<open>env_probe\<close>: \<^verbatim>\<open>ffprobe\<close> and the decoding of its output, giving the size in bytes and
    the duration of a file;
  \<^item> \<open>env_run_compress\<close>: the compression subprocess for an input, an output and a
    bitrate, and whether the output file exists afterwards;
  \<^item> \<open>env_analyze\<close>: \<^verbatim>\<open>analyze_video\<close> for a file and the criteria;
  \<^item> \<open>env_segment_embeddings\<close>: the segmented-embedding call of
    \<^verbatim>\<open>extract_clips_with_embeddings\<close>, with everything around it that can raise, giving
    the embedding of every segment;
  \<^item> \<open>env_output_dir\<close>: the fresh directory for the clips;
  \<^item> \<open>env_get_embedding\<close>: \<^verbatim>\<open>get_embedding\<close> for a text;
  \<^item> \<open>env_run_extract\<close>: the subprocess that cuts one clip out;
  \<^item> \<open>env_stitch\<close>: the copy, or the fades and the concatenation, of
    \<^verbatim>\<open>create_highlight_video\<close> for a non-empty selection and an output path;
  \<^item> \<open>env_get_video_duration\<close>: \<^verbatim>\<open>get_video_duration\<close>, which returns 0 instead of raising.
\<close>

record env =
  env_invoke_criteria :: "pystr \<Rightarrow> string + pystr"
  env_probe :: "string \<Rightarrow> string + nat \<times> pyfloat"
  env_run_compress :: "string \<Rightarrow> string \<Rightarrow> int \<Rightarrow> string + bool"
  env_analyze :: "string \<Rightarrow> pystr \<Rightarrow> string + pystr"
  env_segment_embeddings :: "string \<Rightarrow> int \<Rightarrow> string + vector option list"
  env_output_dir :: string
  env_get_embedding :: "pystr \<Rightarrow> string + vector"
  env_run_extract :: "sel_clip \<Rightarrow> string option"
  env_stitch :: "sel_clip list \<Rightarrow> string \<Rightarrow> string option"
  env_get_video_duration :: "string \<Rightarrow> pyfloat"

text \<open>The default criteria of \<^verbatim>\<open>generate_criteria\<close> (lines 68-73), as code points.\<close>

definition default_criteria :: pystr where
  "default_criteria =
       [35, 35, 32, 39640, 20809, 29255, 27573, 21028, 23450, 26631, 20934, 65306, 10, 45,
        32, 21160, 20316, 31934, 24425, 25110, 25216, 24039, 24615, 24378, 30340, 26102,
        21051, 10, 45, 32, 24773, 24863, 34920, 36798, 20016, 23500, 25110, 25103, 21095,
        24615, 30340, 30636, 38388, 10, 45, 32, 20851, 38190, 36716, 25240, 28857, 25110,
        37325, 35201, 20107, 20214, 10, 45, 32, 35270, 35273, 25928, 26524, 31361, 20986,
        25110, 26500, 22270, 20248, 32654, 30340, 29255, 27573, 10, 45, 32, 20855, 26377,
        25925, 20107, 24615, 25110, 21465, 20107, 20215, 20540, 30340, 26102, 21051]"

text \<open>\<^verbatim>\<open>generate_criteria\<close>: any exception of the call gives the default criteria.\<close>

definition generate_criteria :: "env \<Rightarrow> pystr \<Rightarrow> pystr" where
  "generate_criteria e theme =
     (case env_invoke_criteria e theme of
        Inr criteria \<Rightarrow> criteria
      | Inl _ \<Rightarrow> default_criteria)"

text \<open>
  \<^verbatim>\<open>int((max_size_mb * 8 * 1024) / duration) - 128\<close>: the division raises on a zero
  duration, \<^verbatim>\<open>int\<close> raises on NaN and truncates towards zero otherwise.
\<close>

definition trunc :: "real \<Rightarrow> int" where
  "trunc x = (if 0 \<le> x then \<lfloor>x\<rfloor> else \<lceil>x\<rceil>)"

fun target_bitrate :: "nat \<Rightarrow> pyfloat \<Rightarrow> string + int" where
  "target_bitrate max_size_mb (Fin d) =
     (if d = 0 then Inl ''ZeroDivisionError''
      else Inr (trunc (real (max_size_mb * 8 * 1024) / d) - 128))"
| "target_bitrate max_size_mb NaN = Inl ''ValueError''"
| "target_bitrate max_size_mb _ = Inr (0 - 128)"

text \<open>
  \<^verbatim>\<open>compress_video\<close>: a file of at most 25 MB and a file of at most \<open>max_size_mb\<close> are
  returned as they are, a larger one is compressed; any exception gives the input back.
\<close>

definition compress_video :: "env \<Rightarrow> string \<Rightarrow> string \<Rightarrow> nat \<Rightarrow> string" where
  "compress_video e input_path output_path max_size_mb =
     (case env_probe e input_path of
        Inl _ \<Rightarrow> input_path
      | Inr (size_bytes, dur) \<Rightarrow>
          if size_bytes \<le> 25 * (1024 * 1024) then input_path
          else if size_bytes \<le> max_size_mb * (1024 * 1024) then input_path
          else (case target_bitrate max_size_mb dur of
                  Inl _ \<Rightarrow> input_path
                | Inr bitrate \<Rightarrow>
                    (case env_run_compress e input_path output_path bitrate of
                       Inl _ \<Rightarrow> input_path
                     | Inr output_exists \<Rightarrow>
                         if output_exists then output_path else input_path)))"

text \<open>\<^verbatim>\<open>extract_clips_with_embeddings\<close>: the exception is printed and raised again.\<close>

definition extract_clips_with_embeddings :: "env \<Rightarrow> string \<Rightarrow> int \<Rightarrow> hl_error + clip list" where
  "extract_clips_with_embeddings e video segment_duration =
     (case env_segment_embeddings e video segment_duration of
        Inl msg \<Rightarrow> Inl (SegmentationError msg)
      | Inr segments_data \<Rightarrow>
          Inr (build_clips video (env_output_dir e) segment_duration segments_data))"

text \<open>\<^verbatim>\<open>create_highlight_video\<close>: an empty selection raises, as does a failing tool.\<close>

definition create_highlight_video :: "env \<Rightarrow> sel_clip list \<Rightarrow> string \<Rightarrow> hl_error option" where
  "create_highlight_video e selected_clips output_path =
     (if selected_clips = [] then Some NoClipsToStitch
      else (case env_stitch e selected_clips output_path of
              Some msg \<Rightarrow> Some (StitchError msg)
            | None \<Rightarrow> None))"

text \<open>The messages that the job shows for its steps, one constructor for each literal.\<close>

datatype step_message =
    MsgGeneratingCriteria
  | MsgWaiting
  | MsgCallingModel
  | MsgCriteriaDone
  | MsgCompressing
  | MsgCompressDone
  | MsgAnalyzing
  | MsgAnalysisDone
  | MsgEmbedding
  | MsgEmbeddingDone nat nat
  | MsgMatching
  | MsgMatchDone nat
  | MsgStitching
  | MsgStitchDone

datatype job_state = Processing | Completed | Failed

record clip_info =
  info_url :: string
  info_timestamp :: int
  info_similarity :: pyfloat
  info_description :: pystr

text \<open>The key \<^verbatim>\<open>clips\<close> of a job holds the clips of step 4, then the summary of step 5.\<close>

datatype clips_entry = RawClips "clip list" | ClipsInfo "clip_info list"

text \<open>
  The record of a job in \<^verbatim>\<open>highlight_jobs\<close>. A key that is not yet in the dict is
  \<open>None\<close>; \<open>job_error\<close> stands for \<^verbatim>\<open>str(e)\<close>.
\<close>

record job =
  job_status :: job_state
  job_current_step :: nat
  job_progress :: nat
  job_theme :: pystr
  job_video_path :: string
  job_work_dir :: string
  job_step_messages :: "(nat \<times> step_message) list"
  job_criteria :: "pystr option"
  job_compressed_path :: "string option"
  job_analysis :: "pystr option"
  job_clips :: "clips_entry option"
  job_clips_count :: "nat option"
  job_highlight_video_path :: "string option"
  job_highlight_video_url :: "string option"
  job_original_duration :: "pyfloat option"
  job_highlight_duration :: "pyfloat option"
  job_error :: "hl_error option"

text \<open>Lines 410-425 of \<^verbatim>\<open>extract_highlight\<close>: the job as it is created.\<close>

definition new_job :: "pystr \<Rightarrow> string \<Rightarrow> string \<Rightarrow> job" where
  "new_job theme video work =
     \<lparr> job_status = Processing, job_current_step = 1, job_progress = 0,
       job_theme = theme, job_video_path = video, job_work_dir = work,
       job_step_messages = [(1, MsgGeneratingCriteria), (2, MsgWaiting), (3, MsgWaiting),
                            (4, MsgWaiting), (5, MsgWaiting), (6, MsgWaiting)],
       job_criteria = None, job_compressed_path = None, job_analysis = None,
       job_clips = None, job_clips_count = None, job_highlight_video_path = None,
       job_highlight_video_url = None, job_original_duration = None,
       job_highlight_duration = None, job_error = None \<rparr>"

text \<open>\<^verbatim>\<open>job_status['step_messages'][k] = m\<close>\<close>

definition set_message :: "nat \<Rightarrow> step_message \<Rightarrow> job \<Rightarrow> job" where
  "set_message k m j = j\<lparr>job_step_messages := AList.update k m (job_step_messages j)\<rparr>"

text \<open>\<^verbatim>\<open>p.replace('\\', '/')\<close> and \<^verbatim>\<open>'/' + p.replace('\\', '/')\<close>\<close>

definition slashes :: "string \<Rightarrow> string" where
  "slashes p = map (\<lambda>c. if c = CHR 0x5C then CHR ''/'' else c) p"

definition url_of :: "string \<Rightarrow> string" where
  "url_of p = CHR ''/'' # slashes p"

text \<open>
  Every stage gives the job as it has changed it, with the value that the next stages
  use or the exception that ended it. The first two stages never raise.
\<close>

definition stage1 :: "env \<Rightarrow> job \<Rightarrow> pystr \<times> job" where
  "stage1 e j =
     (let j1 = set_message 1 MsgCallingModel (j\<lparr>job_current_step := 1, job_progress := 5\<rparr>);
          criteria = generate_criteria e (job_theme j)
      in (criteria,
          (set_message 1 MsgCriteriaDone (j1\<lparr>job_criteria := Some criteria\<rparr>))
            \<lparr>job_progress := 15\<rparr>))"

definition stage2 :: "env \<Rightarrow> job \<Rightarrow> string \<times> job" where
  "stage2 e j =
     (let j1 = set_message 2 MsgCompressing (j\<lparr>job_current_step := 2\<rparr>);
          compressed = compress_video e (job_video_path j)
                         (path_join (job_work_dir j) ''compressed.mp4'') 100
      in (compressed,
          (set_message 2 MsgCompressDone (j1\<lparr>job_compressed_path := Some compressed\<rparr>))
            \<lparr>job_progress := 25\<rparr>))"

definition stage3 :: "env \<Rightarrow> string \<Rightarrow> pystr \<Rightarrow> job \<Rightarrow> (hl_error + pystr) \<times> job" where
  "stage3 e compressed criteria j =
     (let j1 = set_message 3 MsgAnalyzing (j\<lparr>job_current_step := 3\<rparr>)
      in case env_analyze e compressed criteria of
           Inl msg \<Rightarrow> (Inl (AnalysisError msg), j1)
         | Inr analysis \<Rightarrow>
             (Inr analysis,
              (set_message 3 MsgAnalysisDone (j1\<lparr>job_analysis := Some analysis\<rparr>))
                \<lparr>job_progress := 45\<rparr>))"

definition stage4 :: "env \<Rightarrow> string \<Rightarrow> job \<Rightarrow> (hl_error + clip list) \<times> job" where
  "stage4 e compressed j =
     (let j1 = set_message 4 MsgEmbedding (j\<lparr>job_current_step := 4\<rparr>)
      in case extract_clips_with_embeddings e compressed 3 of
           Inl err \<Rightarrow> (Inl err, j1)
         | Inr clips \<Rightarrow>
             (let successful_clips = filter (\<lambda>c. embedding c \<noteq> None) clips
              in (Inr clips,
                  (set_message 4 (MsgEmbeddingDone (length clips) (length successful_clips))
                     (j1\<lparr>job_clips := Some (RawClips clips)\<rparr>))
                    \<lparr>job_progress := 65\<rparr>)))"

text \<open>
  The summary of a selected clip for the front end. A clip without a file would raise
  here (\<^verbatim>\<open>None\<close> has no \<^verbatim>\<open>replace\<close>).
\<close>

fun clips_info_of :: "sel_clip list \<Rightarrow> clip_info list option" where
  "clips_info_of [] = Some []"
| "clips_info_of (c # cs) =
     (case path c of
        None \<Rightarrow> None
      | Some p \<Rightarrow>
          (case clips_info_of cs of
             None \<Rightarrow> None
           | Some rest \<Rightarrow>
               Some (\<lparr> info_url = url_of p, info_timestamp = timestamp c,
                        info_similarity = similarity c,
                        info_description = take 100 (point c) \<rparr> # rest)))"

definition stage5 :: "env \<Rightarrow> pystr \<Rightarrow> clip list \<Rightarrow> job \<Rightarrow> (hl_error + sel_clip list) \<times> job" where
  "stage5 e analysis clips j =
     (let j1 = set_message 5 MsgMatching (j\<lparr>job_current_step := 5\<rparr>)
      in case match_clips (env_get_embedding e) (env_run_extract e) analysis clips
                (Fin 0.05) 3 of
           Inl err \<Rightarrow> (Inl err, j1)
         | Inr selected_clips \<Rightarrow>
             (case clips_info_of selected_clips of
                None \<Rightarrow> (Inl AttributeError, j1)
              | Some infos \<Rightarrow>
                  (Inr selected_clips,
                   (set_message 5 (MsgMatchDone (length selected_clips))
                      (j1\<lparr>job_clips := Some (ClipsInfo infos),
                          job_clips_count := Some (length selected_clips)\<rparr>))
                     \<lparr>job_progress := 85\<rparr>)))"

definition stage6 :: "env \<Rightarrow> sel_clip list \<Rightarrow> job \<Rightarrow> hl_error option \<times> job" where
  "stage6 e selected_clips j =
     (let j1 = set_message 6 MsgStitching (j\<lparr>job_current_step := 6\<rparr>);
          highlight_path = path_join (job_work_dir j) ''highlight.mp4''
      in case create_highlight_video e selected_clips highlight_path of
           Some err \<Rightarrow> (Some err, j1)
         | None \<Rightarrow>
             (None,
              (set_message 6 MsgStitchDone
                 (j1\<lparr>job_highlight_video_path := Some highlight_path,
                     job_highlight_video_url := Some (url_of highlight_path)\<rparr>))
                \<lparr>job_progress := 100,
                 job_original_duration := Some (env_get_video_duration e (job_video_path j)),
                 job_highlight_duration := Some (env_get_video_duration e highlight_path),
                 job_status := Completed,
                 job_current_step := 6\<rparr>))"

text \<open>The handler of lines 542-552: the status and the error text, nothing else.\<close>

definition mark_failed :: "hl_error \<Rightarrow> job \<Rightarrow> job" where
  "mark_failed err j = j\<lparr>job_status := Failed, job_error := Some err\<rparr>"

text \<open>\<^verbatim>\<open>process_highlight\<close>: the stages in order, inside one \<^verbatim>\<open>try\<close>.\<close>

definition process_highlight :: "env \<Rightarrow> job \<Rightarrow> job" where
  "process_highlight e j =
     (let (criteria, j1) = stage1 e j;
          (compressed, j2) = stage2 e j1
      in (case stage3 e compressed criteria j2 of
            (Inl err, j3) \<Rightarrow> mark_failed err j3
          | (Inr analysis, j3) \<Rightarrow>
              (case stage4 e compressed j3 of
                 (Inl err, j4) \<Rightarrow> mark_failed err j4
               | (Inr clips, j4) \<Rightarrow>
                   (case stage5 e analysis clips j4 of
                      (Inl err, j5) \<Rightarrow> mark_failed err j5
                    | (Inr selected_clips, j5) \<Rightarrow>
                        (case stage6 e selected_clips j5 of
                           (Some err, j6) \<Rightarrow> mark_failed err j6
                         | (None, j6) \<Rightarrow> j6)))))"

text \<open>The job after the first stage and after the second one.\<close>

definition after_stage1 :: "env \<Rightarrow> pystr \<Rightarrow> string \<Rightarrow> string \<Rightarrow> job" where
  "after_stage1 e theme video work = snd (stage1 e (new_job theme video work))"

definition after_stage2 :: "env \<Rightarrow> pystr \<Rightarrow> string \<Rightarrow> string \<Rightarrow> job" where
  "after_stage2 e theme video work = snd (stage2 e (after_stage1 e theme video work))"

text \<open>An environment in which every external call fails, to build examples from.\<close>

definition env_all_down :: env where
  "env_all_down =
     \<lparr> env_invoke_criteria = (\<lambda>_. Inl ''unavailable''),
       env_probe = (\<lambda>_. Inl ''unavailable''),
       env_run_compress = (\<lambda>_ _ _. Inl ''unavailable''),
       env_analyze = (\<lambda>_ _. Inl ''unavailable''),
       env_segment_embeddings = (\<lambda>_ _. Inl ''unavailable''),
       env_output_dir = ''out'',
       env_get_embedding = (\<lambda>_. Inl ''unavailable''),
       env_run_extract = (\<lambda>_. Some ''unavailable''),
       env_stitch = (\<lambda>_ _. Some ''unavailable''),
       env_get_video_duration = (\<lambda>_. Fin 0) \<rparr>"

text \<open>
  An environment in which every external call succeeds: a small video, an analysis of
  one point, one segment. And an embedding call that fails for one text only.
\<close>

definition env_all_up :: env where
  "env_all_up =
     \<lparr> env_invoke_criteria = (\<lambda>_. Inr (asc ''- goals'')),
       env_probe = (\<lambda>_. Inr (1024 * 1024, Fin 30)),
       env_run_compress = (\<lambda>_ _ _. Inr True),
       env_analyze = (\<lambda>_ _. Inr (asc ''A. goal'')),
       env_segment_embeddings = (\<lambda>_ _. Inr [Some [Fin 3, Fin 4]]),
       env_output_dir = ''out'',
       env_get_embedding = (\<lambda>_. Inr [Fin 1, Fin 0]),
       env_run_extract = (\<lambda>_. None),
       env_stitch = (\<lambda>_ _. None),
       env_get_video_duration = (\<lambda>_. Fin 30) \<rparr>"

definition embed_except :: "pystr \<Rightarrow> pystr \<Rightarrow> string + vector" where
  "embed_except bad pt = (if pt = bad then Inl ''throttled'' else Inr [Fin 1, Fin 0])"

section \<open>The keys of the store never change\<close>

lemma wf_init: "wf_store init_store"
  by (simp add: wf_store_def init_store_def supported_dimensions_def)

lemma wf_keys: "wf_store st \<Longrightarrow> fst ` set (vectors_by_dimension st) = set supported_dimensions"
  unfolding wf_store_def by (metis set_map)

lemma keys_update: "k \<in> fst ` set al \<Longrightarrow> map fst (AList.update k v al) = map fst al"
  by (induction al) auto

lemma set_shard_simps [simp]:
  "vectors_by_dimension (set_shard st d sh) = AList.update d sh (vectors_by_dimension st)"
  "metadata (set_shard st d sh) = metadata st"
  "s3_objects (set_shard st d sh) = s3_objects st"
  by (simp_all add: set_shard_def)

lemma keys_add_to_memory:
  "length v \<in> fst ` set (vectors_by_dimension st) \<Longrightarrow>
   map fst (vectors_by_dimension (add_to_memory st i v md)) = map fst (vectors_by_dimension st)"
  by (simp add: add_to_memory_def Let_def keys_update)

lemma keys_remove_from_memory:
  "d \<in> fst ` set (vectors_by_dimension st) \<Longrightarrow>
   map fst (vectors_by_dimension (remove_from_memory st i d)) = map fst (vectors_by_dimension st)"
  by (simp add: remove_from_memory_def Let_def keys_update)

lemma validate_None_key:
  "validate_vector st v = None \<Longrightarrow> length v \<in> fst ` set (vectors_by_dimension st)"
  by (simp add: validate_vector_def split: if_splits)

lemma keys_add_vector:
  "map fst (vectors_by_dimension (snd (add_vector p st i v md))) = map fst (vectors_by_dimension st)"
proof (cases "validate_vector st v")
  case (Some e)
  then show ?thesis by (simp add: add_vector_def)
next
  case None
  then have k: "length v \<in> fst ` set (vectors_by_dimension st)"
    by (rule validate_None_key)
  then have k1: "length v \<in> fst ` set (vectors_by_dimension (add_to_memory st i v md))"
    by (metis keys_add_to_memory set_map)
  show ?thesis
    using None k k1
    by (cases p) (simp_all add: add_vector_def Let_def keys_add_to_memory keys_remove_from_memory)
qed

lemma wf_add_vector: "wf_store st \<Longrightarrow> wf_store (snd (add_vector p st i v md))"
  by (simp add: wf_store_def keys_add_vector)

lemma keys_load_object:
  "d \<in> fst ` set (vectors_by_dimension st) \<Longrightarrow>
   map fst (vectors_by_dimension (load_object d st obj)) = map fst (vectors_by_dimension st)"
  by (cases obj) (auto simp: Let_def keys_update split: sum.splits option.splits)

lemma keys_load_objects:
  "d \<in> fst ` set (vectors_by_dimension st) \<Longrightarrow>
   map fst (vectors_by_dimension (foldl (load_object d) st objs)) = map fst (vectors_by_dimension st)"
proof (induction objs arbitrary: st)
  case Nil
  show ?case by simp
next
  case (Cons obj objs)
  have eq: "map fst (vectors_by_dimension (load_object d st obj)) = map fst (vectors_by_dimension st)"
    using Cons.prems by (rule keys_load_object)
  then have "d \<in> fst ` set (vectors_by_dimension (load_object d st obj))"
    using Cons.prems by (metis set_map)
  from Cons.IH [OF this] eq show ?case by simp
qed

lemma keys_load:
  "d \<in> fst ` set (vectors_by_dimension st) \<Longrightarrow>
   map fst (vectors_by_dimension (load_vectors_by_dimension resp st d)) = map fst (vectors_by_dimension st)"
  by (auto simp: load_vectors_by_dimension_def keys_load_objects split: sum.splits option.splits)

lemma keys_search_in_dimension:
  "map fst (vectors_by_dimension (snd (search_in_dimension resp st q k d)))
     = map fst (vectors_by_dimension st)"
proof (cases "map_of (vectors_by_dimension st) d")
  case None
  then show ?thesis by (simp add: search_in_dimension_def)
next
  case (Some sh)
  then have "(d, sh) \<in> set (vectors_by_dimension st)"
    by (rule map_of_SomeD)
  then have "d \<in> fst ` set (vectors_by_dimension st)"
    by force
  then show ?thesis
    using Some by (simp add: search_in_dimension_def Let_def keys_load)
qed

lemma keys_search:
  "map fst (vectors_by_dimension (snd (search resp st q k td))) = map fst (vectors_by_dimension st)"
  by (simp add: search_def Let_def keys_search_in_dimension split: option.splits)

lemma wf_search: "wf_store st \<Longrightarrow> wf_store (snd (search resp st q k td))"
  by (simp add: wf_store_def keys_search)

text \<open>
  Claim C10. A search without a target dimension whose query has a length that is not
  one of 256, 384, 1024 and 3072 raises the KeyError of the shard lookup: it returns
  neither an empty list nor a dimension-mismatch error, and the store is untouched.
\<close>

theorem search_unsupported_dimension_KeyError:
  assumes "wf_store st" and "length query_vector \<notin> set supported_dimensions"
  shows "search resp st query_vector top_k None = (Inl (KeyError (length query_vector)), st)"
proof -
  from assms have "length query_vector \<notin> fst ` set (vectors_by_dimension st)"
    by (simp add: wf_keys)
  then have "map_of (vectors_by_dimension st) (length query_vector) = None"
    by (simp add: map_of_eq_None_iff)
  then show ?thesis
    by (simp add: search_def search_in_dimension_def)
qed

text \<open>
  A query of length 3 against the store as it is created.
\<close>

theorem search_unsupported_dimension_KeyError_witness:
  "wf_store init_store \<and> length [Fin 1, Fin 2, Fin 3] \<notin> set supported_dimensions \<and>
   search (Inr None) init_store [Fin 1, Fin 2, Fin 3] 5 None = (Inl (KeyError 3), init_store) \<and>
   kind_of (KeyError 3) = Unhandled"
proof -
  have w: "wf_store init_store"
    by (simp add: wf_store_def init_store_def supported_dimensions_def)
  have l: "length [Fin 1, Fin 2, Fin 3] \<notin> set supported_dimensions"
    by (simp add: supported_dimensions_def)
  show ?thesis
    using w l search_unsupported_dimension_KeyError [OF w l, of "Inr None" 5] by simp
qed

section \<open>Insertion into the store\<close>

lemma shard_of_set_shard_same [simp]:
  "shard_of (set_shard st d sh) d = sh"
  by (simp add: shard_of_def update_conv')

lemma shard_of_metadata_update [simp]:
  "shard_of (st\<lparr>metadata := m\<rparr>) d = shard_of st d"
  by (simp add: shard_of_def)

lemma shard_of_s3_update [simp]:
  "shard_of (st\<lparr>s3_objects := m\<rparr>) d = shard_of st d"
  by (simp add: shard_of_def)


lemma set_shard_twice [simp]:
  "set_shard (set_shard st d sh) d sh' = set_shard st d sh'"
  by (simp add: set_shard_def)






lemma validate_vector_metadata [simp]:
  "validate_vector (st\<lparr>metadata := m\<rparr>) v = validate_vector st v"
  by (simp add: validate_vector_def)








section \<open>Cosine similarity\<close>









lemma cosine_similarity_finite_result:
  "length u = length v \<Longrightarrow> \<exists>s. cosine_similarity u v = Inr (Fin s)"
proof -
  assume "length u = length v"
  then obtain d where d: "np_dot u v = Inr d"
    by (simp add: np_dot_def)
  show ?thesis
  proof (cases "fdiv d (fmul (np_norm u) (np_norm v))")
    case (Fin s)
    then show ?thesis using d by (simp add: cosine_similarity_def Let_def)
  qed (use d in \<open>simp_all add: cosine_similarity_def Let_def\<close>)
qed


lemma sqrt_25: "sqrt 25 = 5"
  by (rule real_sqrt_unique) simp_all



section \<open>Search\<close>

lemma flt_irrefl [simp]: "\<not> flt a a"
  by (cases a) simp_all



lemma set_insert_desc [simp]: "set (insert_desc key x xs) = insert x (set xs)"
  by (induction xs) auto

lemma length_insert_desc [simp]: "length (insert_desc key x xs) = Suc (length xs)"
  by (induction xs) auto

lemma set_sort_desc [simp]: "set (sort_desc key xs) = set xs"
  by (induction xs) (simp_all add: sort_desc_def)

lemma length_sort_desc [simp]: "length (sort_desc key xs) = length xs"
  by (induction xs) (simp_all add: sort_desc_def)
























section \<open>The selection of the matching step\<close>

lemma apart_sym: "apart a b \<Longrightarrow> apart b a"
  by (simp add: apart_def abs_minus_commute)

lemma not_apart_self [simp]: "\<not> apart a a"
  by (simp add: apart_def)

lemma sorted_wrt_apart_iff:
  "sorted_wrt apart xs \<longleftrightarrow>
     distinct xs \<and> (\<forall>x\<in>set xs. \<forall>y\<in>set xs. x \<noteq> y \<longrightarrow> apart x y)"
proof (induction xs)
  case Nil
  show ?case by simp
next
  case (Cons a xs)
  show ?case
  proof
    assume l: "sorted_wrt apart (a # xs)"
    then have "a \<notin> set xs" by auto
    moreover have "\<forall>x\<in>set xs. apart x a" using l by (auto intro: apart_sym)
    ultimately show "distinct (a # xs) \<and> (\<forall>x\<in>set (a # xs). \<forall>y\<in>set (a # xs). x \<noteq> y \<longrightarrow> apart x y)"
      using l Cons by auto
  next
    assume "distinct (a # xs) \<and> (\<forall>x\<in>set (a # xs). \<forall>y\<in>set (a # xs). x \<noteq> y \<longrightarrow> apart x y)"
    then show "sorted_wrt apart (a # xs)"
      using Cons by auto
  qed
qed

lemma set_unique_by_index: "set (unique_by_index seen xs) \<subseteq> set xs"
  by (induction xs arbitrary: seen) auto

lemma index_unique_by_index:
  "c \<in> set (unique_by_index seen xs) \<Longrightarrow> index c \<notin> set seen"
proof (induction xs arbitrary: seen)
  case Nil
  then show ?case by simp
next
  case (Cons x xs)
  show ?case
  proof (cases "index x \<in> set seen")
    case True
    then show ?thesis using Cons by simp
  next
    case False
    then have "c = x \<or> c \<in> set (unique_by_index (index x # seen) xs)"
      using Cons.prems by simp
    then show ?thesis
    proof
      assume "c = x"
      then show ?thesis using False by simp
    next
      assume "c \<in> set (unique_by_index (index x # seen) xs)"
      then have "index c \<notin> set (index x # seen)" by (rule Cons.IH)
      then show ?thesis by simp
    qed
  qed
qed

lemma distinct_index_unique_by_index: "distinct (map index (unique_by_index seen xs))"
proof (induction xs arbitrary: seen)
  case Nil
  show ?case by simp
next
  case (Cons c cs)
  have "index c \<notin> index ` set (unique_by_index (index c # seen) cs)"
  proof
    assume "index c \<in> index ` set (unique_by_index (index c # seen) cs)"
    then obtain x where x: "x \<in> set (unique_by_index (index c # seen) cs)" "index x = index c"
      by auto
    from index_unique_by_index [OF x(1)] x(2) show False by simp
  qed
  then show ?case using Cons by simp
qed

lemma sorted_unique_by_index:
  "sorted (map timestamp xs) \<Longrightarrow> sorted (map timestamp (unique_by_index seen xs))"
proof (induction xs arbitrary: seen)
  case Nil
  show ?case by simp
next
  case (Cons c cs)
  have "\<forall>x\<in>set (unique_by_index (index c # seen) cs). timestamp c \<le> timestamp x"
    using Cons.prems set_unique_by_index [of "index c # seen" cs] by auto
  then show ?case using Cons by auto
qed

lemma unique_clips_of_props:
  "sorted (map timestamp (unique_clips_of sel))"
  "distinct (map index (unique_clips_of sel))"
  by (simp_all add: unique_clips_of_def sorted_unique_by_index distinct_index_unique_by_index)

text \<open>One step of the scan keeps the accepted clips pairwise apart.\<close>

lemma find_within:
  "find (\<lambda>s. \<bar>timestamp c - timestamp s\<bar> < 3) acc = None \<longleftrightarrow> (\<forall>s\<in>set acc. apart c s)"
  by (auto simp: find_None_iff apart_def not_less)

lemma overlap_step_subset: "set (overlap_step acc c) \<subseteq> insert c (set acc)"
  by (auto simp: overlap_step_def split: option.splits dest: notin_set_remove1)

lemma overlap_step_apart:
  assumes ap: "sorted_wrt apart acc"
    and le: "\<forall>a\<in>set acc. timestamp a \<le> timestamp c"
    and new: "c \<notin> set acc"
  shows "sorted_wrt apart (overlap_step acc c)"
proof (cases "find (\<lambda>s. \<bar>timestamp c - timestamp s\<bar> < 3) acc")
  case None
  then have "\<forall>s\<in>set acc. apart s c"
    by (auto simp: find_within intro: apart_sym)
  then show ?thesis
    using None ap by (simp add: overlap_step_def sorted_wrt_append)
next
  case (Some s)
  then have s: "s \<in> set acc" and near: "\<bar>timestamp c - timestamp s\<bar> < 3"
    by (auto simp: find_Some_iff)
  have d: "distinct acc"
    and pw: "\<forall>x\<in>set acc. \<forall>y\<in>set acc. x \<noteq> y \<longrightarrow> apart x y"
    using ap by (simp_all add: sorted_wrt_apart_iff)
  show ?thesis
  proof (cases "fgt (similarity c) (similarity s)")
    case False
    then show ?thesis using Some ap by (simp add: overlap_step_def)
  next
    case True
    have rest: "\<forall>a\<in>set (remove1 s acc). apart a c"
    proof
      fix a assume "a \<in> set (remove1 s acc)"
      then have a: "a \<in> set acc" "a \<noteq> s" using d by auto
      then have "apart a s" using pw s by blast
      moreover have "timestamp a \<le> timestamp c" "timestamp s \<le> timestamp c"
        using le a s by auto
      ultimately show "apart a c"
        using near by (simp add: apart_def)
    qed
    have "sorted_wrt apart (remove1 s acc)"
      using d pw by (auto simp: sorted_wrt_apart_iff)
    then have "sorted_wrt apart (remove1 s acc @ [c])"
      using rest by (simp add: sorted_wrt_append)
    then show ?thesis using Some True by (simp add: overlap_step_def)
  qed
qed

lemma foldl_overlap_step_inv:
  assumes "sorted (map timestamp (pre @ xs))" and "distinct (pre @ xs)"
    and "sorted_wrt apart acc" and "set acc \<subseteq> set pre"
  shows "sorted_wrt apart (foldl overlap_step acc xs) \<and>
         set (foldl overlap_step acc xs) \<subseteq> set (pre @ xs)"
  using assms
proof (induction xs arbitrary: acc pre)
  case Nil
  then show ?case by simp
next
  case (Cons c cs)
  have le: "\<forall>a\<in>set acc. timestamp a \<le> timestamp c"
    using Cons.prems(1,4) by (auto simp: sorted_append)
  have new: "c \<notin> set acc"
    using Cons.prems(2,4) by auto
  have 1: "sorted_wrt apart (overlap_step acc c)"
    using Cons.prems(3) le new by (rule overlap_step_apart)
  have 2: "set (overlap_step acc c) \<subseteq> set (pre @ [c])"
    using overlap_step_subset [of acc c] Cons.prems(4) by auto
  have "sorted_wrt apart (foldl overlap_step (overlap_step acc c) cs) \<and>
        set (foldl overlap_step (overlap_step acc c) cs) \<subseteq> set ((pre @ [c]) @ cs)"
    using Cons.prems(1,2) 1 2 by (intro Cons.IH) simp_all
  then show ?case by simp
qed

lemma filter_overlaps_props:
  assumes "sorted (map timestamp u)" and "distinct (map index u)"
  shows "sorted_wrt apart (filter_overlaps u)" and "set (filter_overlaps u) \<subseteq> set u"
proof -
  have "distinct u" using assms(2) by (simp add: distinct_map)
  then have "sorted_wrt apart (foldl overlap_step [] u) \<and>
             set (foldl overlap_step [] u) \<subseteq> set ([] @ u)"
    using assms(1) by (intro foldl_overlap_step_inv) simp_all
  then show "sorted_wrt apart (filter_overlaps u)" and "set (filter_overlaps u) \<subseteq> set u"
    by (simp_all add: filter_overlaps_def)
qed


lemma overlap_step_keeps_higher:
  assumes ap: "sorted_wrt apart acc"
    and le: "\<forall>a\<in>set acc. timestamp a \<le> timestamp c"
    and s: "s \<in> set acc" and near: "\<bar>timestamp c - timestamp s\<bar> < 3"
  shows "overlap_step acc c =
           (if fgt (similarity c) (similarity s) then remove1 s acc @ [c] else acc)"
proof -
  have pw: "\<forall>x\<in>set acc. \<forall>y\<in>set acc. x \<noteq> y \<longrightarrow> apart x y"
    using ap by (simp add: sorted_wrt_apart_iff)
  obtain s' where f: "find (\<lambda>s. \<bar>timestamp c - timestamp s\<bar> < 3) acc = Some s'"
    using s near by (cases "find (\<lambda>s. \<bar>timestamp c - timestamp s\<bar> < 3) acc")
      (auto simp: find_None_iff)
  then have s': "s' \<in> set acc" and near': "\<bar>timestamp c - timestamp s'\<bar> < 3"
    by (auto simp: find_Some_iff)
  have "s' = s"
  proof (rule ccontr)
    assume "s' \<noteq> s"
    then have "apart s' s" using pw s s' by blast
    moreover have "timestamp s \<le> timestamp c" "timestamp s' \<le> timestamp c"
      using le s s' by auto
    ultimately show False using near near' by (simp add: apart_def)
  qed
  then show ?thesis using f by (simp add: overlap_step_def)
qed

lemma filter_overlaps_Suc:
  "n < length u \<Longrightarrow>
   filter_overlaps (take (Suc n) u) = overlap_step (filter_overlaps (take n u)) (u ! n)"
  by (simp add: filter_overlaps_def take_Suc_conv_app_nth)

lemma nth_notin_take: "distinct u \<Longrightarrow> n < length u \<Longrightarrow> u ! n \<notin> set (take n u)"
proof -
  assume d: "distinct u" and n: "n < length u"
  have "u = take n u @ u ! n # drop (Suc n) u"
    using n by (rule id_take_nth_drop)
  then have "distinct (take n u @ u ! n # drop (Suc n) u)"
    using d by simp
  then show ?thesis by simp
qed

lemma take_le_nth:
  assumes "sorted (map timestamp u)" and "n < length u" and "a \<in> set (take n u)"
  shows "timestamp a \<le> timestamp (u ! n)"
proof -
  from assms(3) obtain i where i: "i < n" "i < length u" "a = u ! i"
    by (auto simp: in_set_conv_nth)
  have "map timestamp u ! i \<le> map timestamp u ! n"
    using assms(1,2) i by (intro sorted_nth_mono) simp_all
  then show ?thesis using i assms(2) by simp
qed

lemma scan_keeps_higher:
  assumes srt: "sorted (map timestamp u)" and dist: "distinct (map index u)"
    and n: "n < length u"
    and s: "s \<in> set (filter_overlaps (take n u))"
    and near: "\<bar>timestamp (u ! n) - timestamp s\<bar> < 3"
  shows "if fgt (similarity (u ! n)) (similarity s)
         then u ! n \<in> set (filter_overlaps (take (Suc n) u)) \<and>
              s \<notin> set (filter_overlaps (take (Suc n) u))
         else s \<in> set (filter_overlaps (take (Suc n) u)) \<and>
              u ! n \<notin> set (filter_overlaps (take (Suc n) u))"
proof -
  let ?acc = "filter_overlaps (take n u)"
  have du: "distinct u" using dist by (simp add: distinct_map)
  have st: "sorted (map timestamp (take n u))"
    using srt by (simp add: take_map [symmetric])
  have dt: "distinct (map index (take n u))"
    using dist by (simp add: take_map [symmetric])
  have ap: "sorted_wrt apart ?acc" and sub: "set ?acc \<subseteq> set (take n u)"
    using filter_overlaps_props [OF st dt] by simp_all
  have le: "\<forall>a\<in>set ?acc. timestamp a \<le> timestamp (u ! n)"
    using sub take_le_nth [OF srt n] by blast
  have new: "u ! n \<notin> set ?acc"
    using sub nth_notin_take [OF du n] by blast
  have dacc: "distinct ?acc"
    using ap by (simp add: sorted_wrt_apart_iff)
  have step: "filter_overlaps (take (Suc n) u) =
      (if fgt (similarity (u ! n)) (similarity s) then remove1 s ?acc @ [u ! n] else ?acc)"
    using filter_overlaps_Suc [OF n] overlap_step_keeps_higher [OF ap le s near] by simp
  show ?thesis
    using step s new dacc by auto
qed

lemma materialize_maps:
  "materialize run_extract xs = Inr ys \<Longrightarrow>
   map timestamp ys = map timestamp xs \<and> map index ys = map index xs"
proof (induction xs arbitrary: ys)
  case Nil
  then show ?case by simp
next
  case (Cons c cs)
  then show ?case
    by (auto split: if_splits option.splits sum.splits)
qed

lemma apart_fun: "apart = (\<lambda>a b. 3 \<le> \<bar>timestamp a - timestamp b\<bar>)"
  by (simp add: apart_def fun_eq_iff)

lemma sorted_apart_sort_key:
  "sorted_wrt apart xs \<Longrightarrow> sorted_wrt apart (sort_key timestamp xs)"
  by (simp add: sorted_wrt_apart_iff)

lemma distinct_index_subset:
  assumes "distinct (map index u)" and "distinct xs" and "set xs \<subseteq> set u"
  shows "distinct (map index xs)"
proof -
  have "inj_on index (set u)" using assms(1) by (simp add: distinct_map)
  then have "inj_on index (set xs)" using assms(3) by (rule inj_on_subset)
  then show ?thesis using assms(2) by (simp add: distinct_map)
qed

text \<open>
  Claim C1. Whenever \<^verbatim>\<open>match_clips\<close> returns, its selection is sorted by ascending start
  offset, holds no segment index twice and no two segments whose start offsets differ
  by less than 3 seconds. It is the set of accepted clips at the end of the scan, and at
  every step of the scan a new clip within 3 seconds of an accepted one either takes its
  place, when its similarity is higher, or is dropped.
\<close>

theorem match_clips_selection:
  assumes "match_clips get_embedding run_extract analysis clips threshold top_k_per_point
             = Inr result"
  shows "sorted (map timestamp result) \<and>
         distinct (map index result) \<and>
         sorted_wrt (\<lambda>a b. 3 \<le> \<bar>a - b\<bar>) (map timestamp result) \<and>
         (\<exists>selected_clips.
            match_points get_embedding threshold top_k_per_point (valid_clips clips)
              (extract_points analysis) = Inr selected_clips \<and>
            map index result
              = map index (sort_key timestamp
                             (filter_overlaps (unique_clips_of selected_clips))) \<and>
            (\<forall>n s. n < length (unique_clips_of selected_clips) \<and>
                   s \<in> set (filter_overlaps (take n (unique_clips_of selected_clips))) \<and>
                   \<bar>timestamp (unique_clips_of selected_clips ! n) - timestamp s\<bar> < 3 \<longrightarrow>
               (if fgt (similarity (unique_clips_of selected_clips ! n)) (similarity s)
                then unique_clips_of selected_clips ! n
                       \<in> set (filter_overlaps (take (Suc n) (unique_clips_of selected_clips))) \<and>
                     s \<notin> set (filter_overlaps (take (Suc n) (unique_clips_of selected_clips)))
                else s \<in> set (filter_overlaps (take (Suc n) (unique_clips_of selected_clips))) \<and>
                     unique_clips_of selected_clips ! n
                       \<notin> set (filter_overlaps (take (Suc n) (unique_clips_of selected_clips))))))"
proof -
  from assms obtain sel where
    sel: "match_points get_embedding threshold top_k_per_point (valid_clips clips)
            (extract_points analysis) = Inr sel"
    and res: "materialize run_extract
                (sort_key timestamp (filter_overlaps (unique_clips_of sel))) = Inr result"
    by (auto simp: match_clips_def split: sum.splits)
  let ?u = "unique_clips_of sel"
  let ?f = "filter_overlaps ?u"
  have su: "sorted (map timestamp ?u)" and du: "distinct (map index ?u)"
    by (rule unique_clips_of_props)+
  have ap: "sorted_wrt apart ?f" and sub: "set ?f \<subseteq> set ?u"
    using filter_overlaps_props [OF su du] by simp_all
  have maps: "map timestamp result = map timestamp (sort_key timestamp ?f)"
    "map index result = map index (sort_key timestamp ?f)"
    using materialize_maps [OF res] by simp_all
  have 1: "sorted (map timestamp result)"
    unfolding maps by (rule sorted_sort_key)
  have "distinct ?f" using ap by (simp add: sorted_wrt_apart_iff)
  then have "distinct (map index (sort_key timestamp ?f))"
    using sub by (intro distinct_index_subset [OF du]) simp_all
  then have 2: "distinct (map index result)"
    by (simp add: maps)
  have "sorted_wrt apart (sort_key timestamp ?f)"
    using ap by (rule sorted_apart_sort_key)
  then have "sorted_wrt (\<lambda>a b. 3 \<le> \<bar>a - b\<bar>) (map timestamp (sort_key timestamp ?f))"
    by (simp add: sorted_wrt_map apart_fun [symmetric])
  then have 3: "sorted_wrt (\<lambda>a b. 3 \<le> \<bar>a - b\<bar>) (map timestamp result)"
    by (simp add: maps)
  have 4: "\<forall>n s. n < length ?u \<and> s \<in> set (filter_overlaps (take n ?u)) \<and>
                   \<bar>timestamp (?u ! n) - timestamp s\<bar> < 3 \<longrightarrow>
               (if fgt (similarity (?u ! n)) (similarity s)
                then ?u ! n \<in> set (filter_overlaps (take (Suc n) ?u)) \<and>
                     s \<notin> set (filter_overlaps (take (Suc n) ?u))
                else s \<in> set (filter_overlaps (take (Suc n) ?u)) \<and>
                     ?u ! n \<notin> set (filter_overlaps (take (Suc n) ?u)))"
    using scan_keeps_higher [OF su du] by blast
  from 1 2 3 4 sel maps(2) show ?thesis by blast
qed

lemma he_cosine_examples:
  "he_cosine_similarity [Fin 1, Fin 0] [Fin 3, Fin 4] = Inr (Fin (3 / 5))"
  "he_cosine_similarity [Fin 1, Fin 0] [Fin 4, Fin 3] = Inr (Fin (4 / 5))"
  "he_cosine_similarity [Fin 1, Fin 0] [Fin 0, Fin 1] = Inr (Fin 0)"
  by (simp_all add: he_cosine_similarity_def np_dot_def np_norm_def sqrt_25)

lemma example_points: "extract_points (asc ''A. goal'') = [asc ''A. goal'']"
  by (simp add: extract_points_def asc_def strip_def is_space_def point_prefixes_def
      startswith_def)

lemma example_clips:
  "build_clips ''v.mp4'' ''out'' 2
     [Some [Fin 3, Fin 4], Some [Fin 4, Fin 3], Some [Fin 0, Fin 1], Some [Fin 3, Fin 4]]
   = [make_clip ''v.mp4'' ''out'' 2 0 (Some [Fin 3, Fin 4]),
      make_clip ''v.mp4'' ''out'' 2 1 (Some [Fin 4, Fin 3]),
      make_clip ''v.mp4'' ''out'' 2 2 (Some [Fin 0, Fin 1]),
      make_clip ''v.mp4'' ''out'' 2 3 (Some [Fin 3, Fin 4])]"
  by (simp add: build_clips_def enumerate_eq_zip upt_rec make_clip_def)

lemma example_selected:
  "match_points (\<lambda>_. Inr [Fin 1, Fin 0]) (Fin 0.05) 3
     (valid_clips (build_clips ''v.mp4'' ''out'' 2
        [Some [Fin 3, Fin 4], Some [Fin 4, Fin 3], Some [Fin 0, Fin 1], Some [Fin 3, Fin 4]]))
     [asc ''A. goal'']
   = Inr [clip_copy (make_clip ''v.mp4'' ''out'' 2 1 (Some [Fin 4, Fin 3])) (Fin (4 / 5)) (asc ''A. goal''),
          clip_copy (make_clip ''v.mp4'' ''out'' 2 0 (Some [Fin 3, Fin 4])) (Fin (3 / 5)) (asc ''A. goal''),
          clip_copy (make_clip ''v.mp4'' ''out'' 2 3 (Some [Fin 3, Fin 4])) (Fin (3 / 5)) (asc ''A. goal'')]"
  unfolding example_clips
  by (simp add: valid_clips_def make_clip_def he_cosine_examples fgt_def sort_desc_def slice_to_def)


lemma example_paths:
  "output_dir c = ''out'' \<Longrightarrow> index c = 1 \<Longrightarrow> clip_path c = ''out/clip_0001.mp4''"
  "output_dir c = ''out'' \<Longrightarrow> index c = 3 \<Longrightarrow> clip_path c = ''out/clip_0003.mp4''"
  by (simp_all add: clip_path_def path_join_def endswith_def
      format_04d_def zero_pad_def str_nat.simps digit_char_def eval_nat_numeral)

lemma example_match:
  "match_clips (\<lambda>_. Inr [Fin 1, Fin 0]) (\<lambda>_. None) (asc ''A. goal'')
     (build_clips ''v.mp4'' ''out'' 2 [Some [Fin 3, Fin 4], Some [Fin 4, Fin 3], Some [Fin 0, Fin 1], Some [Fin 3, Fin 4]]) (Fin 0.05) 3
   = Inr [(clip_copy (make_clip ''v.mp4'' ''out'' 2 1 (Some [Fin 4, Fin 3])) (Fin (4 / 5)) (asc ''A. goal''))
        \<lparr>path := Some ''out/clip_0001.mp4''\<rparr>,
          (clip_copy (make_clip ''v.mp4'' ''out'' 2 3 (Some [Fin 3, Fin 4])) (Fin (3 / 5)) (asc ''A. goal''))
        \<lparr>path := Some ''out/clip_0003.mp4''\<rparr>]"
  unfolding match_clips_def example_points example_selected
  by (simp add: unique_clips_of_def filter_overlaps_def overlap_step_def fgt_def example_paths
      clip_copy_def make_clip_def clip.defs sel_clip.defs)

text \<open>
  One point and four clips at offsets 0, 2, 4 and 6: the clip at 2 takes the place of the
  clip at 0, the clip at 4 is below the threshold, and the selection is the clips at 2
  and 6.
\<close>

theorem match_clips_selection_witness:
  "match_clips (\<lambda>_. Inr [Fin 1, Fin 0]) (\<lambda>_. None) (asc ''A. goal'')
     (build_clips ''v.mp4'' ''out'' 2 [Some [Fin 3, Fin 4], Some [Fin 4, Fin 3], Some [Fin 0, Fin 1], Some [Fin 3, Fin 4]]) (Fin 0.05) 3
   = Inr [(clip_copy (make_clip ''v.mp4'' ''out'' 2 1 (Some [Fin 4, Fin 3])) (Fin (4 / 5)) (asc ''A. goal''))
        \<lparr>path := Some ''out/clip_0001.mp4''\<rparr>,
          (clip_copy (make_clip ''v.mp4'' ''out'' 2 3 (Some [Fin 3, Fin 4])) (Fin (3 / 5)) (asc ''A. goal''))
        \<lparr>path := Some ''out/clip_0003.mp4''\<rparr>] \<and>
   map timestamp
         [(clip_copy (make_clip ''v.mp4'' ''out'' 2 1 (Some [Fin 4, Fin 3])) (Fin (4 / 5)) (asc ''A. goal''))
        \<lparr>path := Some ''out/clip_0001.mp4''\<rparr>,
          (clip_copy (make_clip ''v.mp4'' ''out'' 2 3 (Some [Fin 3, Fin 4])) (Fin (3 / 5)) (asc ''A. goal''))
        \<lparr>path := Some ''out/clip_0003.mp4''\<rparr>] = [2, 6] \<and>
   sorted [2, 6 :: int] \<and> distinct [1, 3 :: int] \<and>
   sorted_wrt (\<lambda>a b. 3 \<le> \<bar>a - b\<bar>) [2, 6 :: int]"
  using example_match match_clips_selection [OF example_match]
  by (simp add: clip_copy_def make_clip_def clip.defs sel_clip.defs)

section \<open>The job record through the stages\<close>

lemma set_message_fields [simp]:
  "job_status (set_message k m j) = job_status j"
  "job_current_step (set_message k m j) = job_current_step j"
  "job_progress (set_message k m j) = job_progress j"
  "job_theme (set_message k m j) = job_theme j"
  "job_video_path (set_message k m j) = job_video_path j"
  "job_work_dir (set_message k m j) = job_work_dir j"
  "job_criteria (set_message k m j) = job_criteria j"
  "job_compressed_path (set_message k m j) = job_compressed_path j"
  "job_analysis (set_message k m j) = job_analysis j"
  "job_clips (set_message k m j) = job_clips j"
  "job_clips_count (set_message k m j) = job_clips_count j"
  "job_highlight_video_path (set_message k m j) = job_highlight_video_path j"
  "job_error (set_message k m j) = job_error j"
  "map_of (job_step_messages (set_message k m j)) k' =
     (if k' = k then Some m else map_of (job_step_messages j) k')"
  by (simp_all add: set_message_def update_conv')

lemma mark_failed_fields [simp]:
  "job_status (mark_failed err j) = Failed"
  "job_error (mark_failed err j) = Some err"
  "job_current_step (mark_failed err j) = job_current_step j"
  "job_criteria (mark_failed err j) = job_criteria j"
  "job_compressed_path (mark_failed err j) = job_compressed_path j"
  "job_analysis (mark_failed err j) = job_analysis j"
  "job_clips (mark_failed err j) = job_clips j"
  "job_clips_count (mark_failed err j) = job_clips_count j"
  "job_highlight_video_path (mark_failed err j) = job_highlight_video_path j"
  "job_step_messages (mark_failed err j) = job_step_messages j"
  by (simp_all add: mark_failed_def)

lemma materialize_paths:
  "materialize run_extract xs = Inr ys \<Longrightarrow> \<forall>c\<in>set ys. path c \<noteq> None"
proof (induction xs arbitrary: ys)
  case Nil
  then show ?case by simp
next
  case (Cons c cs)
  then show ?case
    by (auto split: if_splits option.splits sum.splits)
qed

lemma clips_info_of_Some:
  "\<forall>c\<in>set cs. path c \<noteq> None \<Longrightarrow> \<exists>infos. clips_info_of cs = Some infos"
  by (induction cs) auto

lemma match_clips_info:
  "match_clips g r a cl th k = Inr sel \<Longrightarrow> \<exists>infos. clips_info_of sel = Some infos"
  by (auto simp: match_clips_def split: sum.splits dest!: materialize_paths
      intro: clips_info_of_Some)

lemma stage1_eq:
  "stage1 e (new_job theme video work)
     = (generate_criteria e theme, after_stage1 e theme video work)"
  by (simp add: after_stage1_def prod_eq_iff) (simp add: stage1_def Let_def new_job_def)

lemma stage2_eq:
  "stage2 e (after_stage1 e theme video work)
     = (compress_video e video (path_join work ''compressed.mp4'') 100,
        after_stage2 e theme video work)"
  by (simp add: after_stage2_def prod_eq_iff)
     (simp add: stage2_def Let_def after_stage1_def stage1_def new_job_def)

lemma after_stage2_fields:
  "job_status (after_stage2 e theme video work) = Processing"
  "job_current_step (after_stage2 e theme video work) = 2"
  "job_criteria (after_stage2 e theme video work) = Some (generate_criteria e theme)"
  "job_compressed_path (after_stage2 e theme video work)
     = Some (compress_video e video (path_join work ''compressed.mp4'') 100)"
  "job_analysis (after_stage2 e theme video work) = None"
  "job_clips (after_stage2 e theme video work) = None"
  "job_clips_count (after_stage2 e theme video work) = None"
  "job_highlight_video_path (after_stage2 e theme video work) = None"
  "job_error (after_stage2 e theme video work) = None"
  "job_work_dir (after_stage2 e theme video work) = work"
  "job_video_path (after_stage2 e theme video work) = video"
  "map_of (job_step_messages (after_stage2 e theme video work)) 3 = Some MsgWaiting"
  "map_of (job_step_messages (after_stage2 e theme video work)) 4 = Some MsgWaiting"
  "map_of (job_step_messages (after_stage2 e theme video work)) 5 = Some MsgWaiting"
  "map_of (job_step_messages (after_stage2 e theme video work)) 6 = Some MsgWaiting"
  by (simp_all add: after_stage2_def after_stage1_def stage2_def stage1_def new_job_def Let_def)

lemma process_highlight_unfold:
  "process_highlight e (new_job theme video work) =
     (let criteria = generate_criteria e theme;
          compressed = compress_video e video (path_join work ''compressed.mp4'') 100;
          j2 = after_stage2 e theme video work
      in (case stage3 e compressed criteria j2 of
            (Inl err, j3) \<Rightarrow> mark_failed err j3
          | (Inr analysis, j3) \<Rightarrow>
              (case stage4 e compressed j3 of
                 (Inl err, j4) \<Rightarrow> mark_failed err j4
               | (Inr clips, j4) \<Rightarrow>
                   (case stage5 e analysis clips j4 of
                      (Inl err, j5) \<Rightarrow> mark_failed err j5
                    | (Inr selected_clips, j5) \<Rightarrow>
                        (case stage6 e selected_clips j5 of
                           (Some err, j6) \<Rightarrow> mark_failed err j6
                         | (None, j6) \<Rightarrow> j6)))))"
  by (simp add: process_highlight_def stage1_eq stage2_eq Let_def)


text \<open>
  Claim C7. The first two stages never raise. An exception of stage 3, 4, 5 or 6 sets
  the status of the job to failed and records the exception in its error field; the
  current step stays at the stage that raised, the messages of the later steps still
  say that they wait and their artifacts are still absent, and every artifact that an
  earlier stage recorded (the criteria, the path of the compressed video, the analysis,
  the clips, the number of selected clips) is in the job record as that stage left it.
\<close>

theorem process_highlight_failure:
  assumes "final = process_highlight e (new_job theme video work)"
    and "crit = generate_criteria e theme"
    and "cpath = compress_video e video (path_join work ''compressed.mp4'') 100"
  shows
    "(\<forall>msg. env_analyze e cpath crit = Inl msg \<longrightarrow>
        job_status final = Failed \<and> job_error final = Some (AnalysisError msg) \<and>
        job_current_step final = 3 \<and>
        job_criteria final = Some crit \<and> job_compressed_path final = Some cpath \<and>
        job_analysis final = None \<and> job_clips final = None \<and>
        job_clips_count final = None \<and> job_highlight_video_path final = None \<and>
        map_of (job_step_messages final) 4 = Some MsgWaiting \<and>
        map_of (job_step_messages final) 5 = Some MsgWaiting \<and>
        map_of (job_step_messages final) 6 = Some MsgWaiting) \<and>
     (\<forall>a err. env_analyze e cpath crit = Inr a \<and>
        extract_clips_with_embeddings e cpath 3 = Inl err \<longrightarrow>
        job_status final = Failed \<and> job_error final = Some err \<and>
        job_current_step final = 4 \<and>
        job_criteria final = Some crit \<and> job_compressed_path final = Some cpath \<and>
        job_analysis final = Some a \<and> job_clips final = None \<and>
        job_clips_count final = None \<and> job_highlight_video_path final = None \<and>
        map_of (job_step_messages final) 5 = Some MsgWaiting \<and>
        map_of (job_step_messages final) 6 = Some MsgWaiting) \<and>
     (\<forall>a cl err. env_analyze e cpath crit = Inr a \<and>
        extract_clips_with_embeddings e cpath 3 = Inr cl \<and>
        match_clips (env_get_embedding e) (env_run_extract e) a cl (Fin 0.05) 3 = Inl err \<longrightarrow>
        job_status final = Failed \<and> job_error final = Some err \<and>
        job_current_step final = 5 \<and>
        job_criteria final = Some crit \<and> job_compressed_path final = Some cpath \<and>
        job_analysis final = Some a \<and> job_clips final = Some (RawClips cl) \<and>
        job_clips_count final = None \<and> job_highlight_video_path final = None \<and>
        map_of (job_step_messages final) 6 = Some MsgWaiting) \<and>
     (\<forall>a cl sel err. env_analyze e cpath crit = Inr a \<and>
        extract_clips_with_embeddings e cpath 3 = Inr cl \<and>
        match_clips (env_get_embedding e) (env_run_extract e) a cl (Fin 0.05) 3 = Inr sel \<and>
        create_highlight_video e sel (path_join work ''highlight.mp4'') = Some err \<longrightarrow>
        job_status final = Failed \<and> job_error final = Some err \<and>
        job_current_step final = 6 \<and>
        job_criteria final = Some crit \<and> job_compressed_path final = Some cpath \<and>
        job_analysis final = Some a \<and>
        (\<exists>infos. clips_info_of sel = Some infos \<and> job_clips final = Some (ClipsInfo infos)) \<and>
        job_clips_count final = Some (length sel) \<and>
        job_highlight_video_path final = None)"
proof -
  note f = after_stage2_fields [of e theme video work]
  have s3: "\<forall>msg. env_analyze e cpath crit = Inl msg \<longrightarrow>
        job_status final = Failed \<and> job_error final = Some (AnalysisError msg) \<and>
        job_current_step final = 3 \<and>
        job_criteria final = Some crit \<and> job_compressed_path final = Some cpath \<and>
        job_analysis final = None \<and> job_clips final = None \<and>
        job_clips_count final = None \<and> job_highlight_video_path final = None \<and>
        map_of (job_step_messages final) 4 = Some MsgWaiting \<and>
        map_of (job_step_messages final) 5 = Some MsgWaiting \<and>
        map_of (job_step_messages final) 6 = Some MsgWaiting"
    unfolding assms process_highlight_unfold
    by (simp add: Let_def stage3_def f)
  have s4: "\<forall>a err. env_analyze e cpath crit = Inr a \<and>
        extract_clips_with_embeddings e cpath 3 = Inl err \<longrightarrow>
        job_status final = Failed \<and> job_error final = Some err \<and>
        job_current_step final = 4 \<and>
        job_criteria final = Some crit \<and> job_compressed_path final = Some cpath \<and>
        job_analysis final = Some a \<and> job_clips final = None \<and>
        job_clips_count final = None \<and> job_highlight_video_path final = None \<and>
        map_of (job_step_messages final) 5 = Some MsgWaiting \<and>
        map_of (job_step_messages final) 6 = Some MsgWaiting"
    unfolding assms process_highlight_unfold
    by (simp add: Let_def stage3_def stage4_def f)
  have s5: "\<forall>a cl err. env_analyze e cpath crit = Inr a \<and>
        extract_clips_with_embeddings e cpath 3 = Inr cl \<and>
        match_clips (env_get_embedding e) (env_run_extract e) a cl (Fin 0.05) 3 = Inl err \<longrightarrow>
        job_status final = Failed \<and> job_error final = Some err \<and>
        job_current_step final = 5 \<and>
        job_criteria final = Some crit \<and> job_compressed_path final = Some cpath \<and>
        job_analysis final = Some a \<and> job_clips final = Some (RawClips cl) \<and>
        job_clips_count final = None \<and> job_highlight_video_path final = None \<and>
        map_of (job_step_messages final) 6 = Some MsgWaiting"
    unfolding assms process_highlight_unfold
    by (simp add: Let_def stage3_def stage4_def stage5_def f)
  have s6: "\<forall>a cl sel err. env_analyze e cpath crit = Inr a \<and>
        extract_clips_with_embeddings e cpath 3 = Inr cl \<and>
        match_clips (env_get_embedding e) (env_run_extract e) a cl (Fin 0.05) 3 = Inr sel \<and>
        create_highlight_video e sel (path_join work ''highlight.mp4'') = Some err \<longrightarrow>
        job_status final = Failed \<and> job_error final = Some err \<and>
        job_current_step final = 6 \<and>
        job_criteria final = Some crit \<and> job_compressed_path final = Some cpath \<and>
        job_analysis final = Some a \<and>
        (\<exists>infos. clips_info_of sel = Some infos \<and> job_clips final = Some (ClipsInfo infos)) \<and>
        job_clips_count final = Some (length sel) \<and>
        job_highlight_video_path final = None"
  proof (intro allI impI, elim conjE)
    fix a cl sel err
    assume a: "env_analyze e cpath crit = Inr a"
      and c: "extract_clips_with_embeddings e cpath 3 = Inr cl"
      and m: "match_clips (env_get_embedding e) (env_run_extract e) a cl (Fin 0.05) 3 = Inr sel"
      and h: "create_highlight_video e sel (path_join work ''highlight.mp4'') = Some err"
    from match_clips_info [OF m] obtain infos where i: "clips_info_of sel = Some infos"
      by blast
    show "job_status final = Failed \<and> job_error final = Some err \<and>
        job_current_step final = 6 \<and>
        job_criteria final = Some crit \<and> job_compressed_path final = Some cpath \<and>
        job_analysis final = Some a \<and>
        (\<exists>infos. clips_info_of sel = Some infos \<and> job_clips final = Some (ClipsInfo infos)) \<and>
        job_clips_count final = Some (length sel) \<and>
        job_highlight_video_path final = None"
      using a c m h i
      unfolding assms process_highlight_unfold
      by (simp add: Let_def stage3_def stage4_def stage5_def stage6_def f)
  qed
  from s3 s4 s5 s6 show ?thesis by blast
qed

lemma env_all_down_simps [simp]:
  "env_invoke_criteria env_all_down = (\<lambda>_. Inl ''unavailable'')"
  "env_probe env_all_down = (\<lambda>_. Inl ''unavailable'')"
  "env_analyze env_all_down = (\<lambda>_ _. Inl ''unavailable'')"
  "env_segment_embeddings env_all_down = (\<lambda>_ _. Inl ''unavailable'')"
  "env_output_dir env_all_down = ''out''"
  "env_get_embedding env_all_down = (\<lambda>_. Inl ''unavailable'')"
  "env_run_extract env_all_down = (\<lambda>_. Some ''unavailable'')"
  "env_stitch env_all_down = (\<lambda>_ _. Some ''unavailable'')"
  by (simp_all add: env_all_down_def)

lemma example_match_one:
  "match_clips (\<lambda>_. Inr [Fin 1, Fin 0]) (\<lambda>_. None) (asc ''A. goal'')
     (build_clips ''v.mp4'' ''out'' 3 [Some [Fin 3, Fin 4]]) (Fin 0.05) 3
   = Inr [(clip_copy (make_clip ''v.mp4'' ''out'' 3 0 (Some [Fin 3, Fin 4])) (Fin (3 / 5))
             (asc ''A. goal''))\<lparr>path := Some ''out/clip_0000.mp4''\<rparr>]"
proof -
  have p: "\<And>c. output_dir c = ''out'' \<Longrightarrow> index c = 0 \<Longrightarrow> clip_path c = ''out/clip_0000.mp4''"
    by (simp add: clip_path_def path_join_def endswith_def format_04d_def zero_pad_def
        str_nat.simps digit_char_def eval_nat_numeral)
  show ?thesis
    unfolding match_clips_def example_points
    by (simp add: build_clips_def valid_clips_def he_cosine_examples fgt_def sort_desc_def
        slice_to_def unique_clips_of_def filter_overlaps_def overlap_step_def p
        clip_copy_def make_clip_def clip.defs sel_clip.defs)
qed

lemma example_match_embedding_down:
  "match_clips (\<lambda>_. Inl ''unavailable'') r (asc ''A. goal'') cl th k
     = Inl (EmbeddingError ''unavailable'')"
  unfolding match_clips_def example_points by simp

text \<open>
  Four jobs, which fail at stage 3, at stage 4, at stage 5 and at stage 6.
\<close>

theorem process_highlight_failure_witness:
  "job_status (process_highlight env_all_down (new_job (asc ''goals'') ''v.mp4'' ''w'')) = Failed \<and>
   job_current_step (process_highlight env_all_down (new_job (asc ''goals'') ''v.mp4'' ''w'')) = 3 \<and>
   job_criteria (process_highlight env_all_down (new_job (asc ''goals'') ''v.mp4'' ''w''))
     = Some default_criteria \<and>
   job_compressed_path (process_highlight env_all_down (new_job (asc ''goals'') ''v.mp4'' ''w''))
     = Some ''v.mp4'' \<and>
   job_status (process_highlight
                 (env_all_down\<lparr>env_analyze := (\<lambda>_ _. Inr (asc ''A. goal''))\<rparr>)
                 (new_job (asc ''goals'') ''v.mp4'' ''w'')) = Failed \<and>
   job_error (process_highlight
                 (env_all_down\<lparr>env_analyze := (\<lambda>_ _. Inr (asc ''A. goal''))\<rparr>)
                 (new_job (asc ''goals'') ''v.mp4'' ''w''))
     = Some (SegmentationError ''unavailable'') \<and>
   job_analysis (process_highlight
                 (env_all_down\<lparr>env_analyze := (\<lambda>_ _. Inr (asc ''A. goal''))\<rparr>)
                 (new_job (asc ''goals'') ''v.mp4'' ''w''))
     = Some (asc ''A. goal'') \<and>
   job_error (process_highlight
                 (env_all_down\<lparr>env_analyze := (\<lambda>_ _. Inr (asc ''A. goal'')),
                               env_segment_embeddings := (\<lambda>_ _. Inr [Some [Fin 3, Fin 4]])\<rparr>)
                 (new_job (asc ''goals'') ''v.mp4'' ''w''))
     = Some (EmbeddingError ''unavailable'') \<and>
   job_clips (process_highlight
                 (env_all_down\<lparr>env_analyze := (\<lambda>_ _. Inr (asc ''A. goal'')),
                               env_segment_embeddings := (\<lambda>_ _. Inr [Some [Fin 3, Fin 4]])\<rparr>)
                 (new_job (asc ''goals'') ''v.mp4'' ''w''))
     = Some (RawClips (build_clips ''v.mp4'' ''out'' 3 [Some [Fin 3, Fin 4]])) \<and>
   job_error (process_highlight
                 (env_all_down\<lparr>env_analyze := (\<lambda>_ _. Inr (asc ''A. goal'')),
                               env_segment_embeddings := (\<lambda>_ _. Inr [Some [Fin 3, Fin 4]]),
                               env_get_embedding := (\<lambda>_. Inr [Fin 1, Fin 0]),
                               env_run_extract := (\<lambda>_. None)\<rparr>)
                 (new_job (asc ''goals'') ''v.mp4'' ''w''))
     = Some (StitchError ''unavailable'') \<and>
   job_clips_count (process_highlight
                 (env_all_down\<lparr>env_analyze := (\<lambda>_ _. Inr (asc ''A. goal'')),
                               env_segment_embeddings := (\<lambda>_ _. Inr [Some [Fin 3, Fin 4]]),
                               env_get_embedding := (\<lambda>_. Inr [Fin 1, Fin 0]),
                               env_run_extract := (\<lambda>_. None)\<rparr>)
                 (new_job (asc ''goals'') ''v.mp4'' ''w''))
     = Some 1"
proof -
  let ?j = "new_job (asc ''goals'') ''v.mp4'' ''w''"
  let ?e4 = "env_all_down\<lparr>env_analyze := (\<lambda>_ _. Inr (asc ''A. goal''))\<rparr>"
  let ?e5 = "env_all_down\<lparr>env_analyze := (\<lambda>_ _. Inr (asc ''A. goal'')),
                          env_segment_embeddings := (\<lambda>_ _. Inr [Some [Fin 3, Fin 4]])\<rparr>"
  let ?e6 = "env_all_down\<lparr>env_analyze := (\<lambda>_ _. Inr (asc ''A. goal'')),
                          env_segment_embeddings := (\<lambda>_ _. Inr [Some [Fin 3, Fin 4]]),
                          env_get_embedding := (\<lambda>_. Inr [Fin 1, Fin 0]),
                          env_run_extract := (\<lambda>_. None)\<rparr>"
  have c: "\<And>e. env_probe e = (\<lambda>_. Inl ''unavailable'') \<Longrightarrow>
             compress_video e ''v.mp4'' (path_join ''w'' ''compressed.mp4'') 100 = ''v.mp4''"
    by (simp add: compress_video_def)
  have g: "generate_criteria env_all_down (asc ''goals'') = default_criteria"
    by (simp add: generate_criteria_def)
  have x5: "extract_clips_with_embeddings ?e5 ''v.mp4'' 3
              = Inr (build_clips ''v.mp4'' ''out'' 3 [Some [Fin 3, Fin 4]])"
    and x6: "extract_clips_with_embeddings ?e6 ''v.mp4'' 3
              = Inr (build_clips ''v.mp4'' ''out'' 3 [Some [Fin 3, Fin 4]])"
    by (simp_all add: extract_clips_with_embeddings_def)
  have m6: "match_clips (env_get_embedding ?e6) (env_run_extract ?e6) (asc ''A. goal'')
              (build_clips ''v.mp4'' ''out'' 3 [Some [Fin 3, Fin 4]]) (Fin 0.05) 3
            = Inr [(clip_copy (make_clip ''v.mp4'' ''out'' 3 0 (Some [Fin 3, Fin 4])) (Fin (3 / 5))
                      (asc ''A. goal''))\<lparr>path := Some ''out/clip_0000.mp4''\<rparr>]"
    using example_match_one by simp
  have h6: "create_highlight_video ?e6
              [(clip_copy (make_clip ''v.mp4'' ''out'' 3 0 (Some [Fin 3, Fin 4])) (Fin (3 / 5))
                      (asc ''A. goal''))\<lparr>path := Some ''out/clip_0000.mp4''\<rparr>]
              (path_join ''w'' ''highlight.mp4'') = Some (StitchError ''unavailable'')"
    by (simp add: create_highlight_video_def)
  have w3: "job_status (process_highlight env_all_down ?j) = Failed \<and>
      job_current_step (process_highlight env_all_down ?j) = 3 \<and>
      job_criteria (process_highlight env_all_down ?j) = Some default_criteria \<and>
      job_compressed_path (process_highlight env_all_down ?j) = Some ''v.mp4''"
    using process_highlight_failure [where e = env_all_down and theme = "asc ''goals''"
        and video = "''v.mp4''" and work = "''w''", OF refl refl refl]
    by (simp add: c g)
  have w4: "job_status (process_highlight ?e4 ?j) = Failed \<and>
      job_error (process_highlight ?e4 ?j) = Some (SegmentationError ''unavailable'') \<and>
      job_analysis (process_highlight ?e4 ?j) = Some (asc ''A. goal'')"
    using process_highlight_failure [where e = ?e4 and theme = "asc ''goals''"
        and video = "''v.mp4''" and work = "''w''", OF refl refl refl]
    by (simp add: c extract_clips_with_embeddings_def)
  have w5: "job_error (process_highlight ?e5 ?j) = Some (EmbeddingError ''unavailable'') \<and>
      job_clips (process_highlight ?e5 ?j)
        = Some (RawClips (build_clips ''v.mp4'' ''out'' 3 [Some [Fin 3, Fin 4]]))"
    using process_highlight_failure [where e = ?e5 and theme = "asc ''goals''"
        and video = "''v.mp4''" and work = "''w''", OF refl refl refl]
    by (simp add: c x5 example_match_embedding_down)
  have w6: "job_error (process_highlight ?e6 ?j) = Some (StitchError ''unavailable'') \<and>
      job_clips_count (process_highlight ?e6 ?j) = Some 1"
    using process_highlight_failure [where e = ?e6 and theme = "asc ''goals''"
        and video = "''v.mp4''" and work = "''w''", OF refl refl refl] m6 h6
    by (simp add: c x6)
  from w3 w4 w5 w6 show ?thesis by simp
qed

section \<open>Failures inside the matching step\<close>

lemma match_points_append:
  "match_points g th k vcs (pre @ rest) =
     (case match_points g th k vcs pre of
        Inl err \<Rightarrow> Inl err
      | Inr a \<Rightarrow> (case match_points g th k vcs rest of
                    Inl err \<Rightarrow> Inl err
                  | Inr b \<Rightarrow> Inr (a @ b)))"
  by (induction pre) (auto split: sum.splits)

lemma match_points_embedding_fails:
  "pt \<in> set pts \<Longrightarrow> g pt = Inl msg \<Longrightarrow> \<exists>err. match_points g th k vcs pts = Inl err"
  by (induction pts) (auto split: sum.splits)

text \<open>
  Claim C4, as amended. When the embedding of a point fails, \<^verbatim>\<open>match_clips\<close> as a whole
  fails: it raises the exception of the first point whose embedding fails, once the
  points before it have been processed, and returns no selection. The points after it
  are not processed.
\<close>

theorem match_clips_embedding_failure:
  "(extract_points analysis = pre @ pt # post \<and>
    match_points get_embedding threshold top_k (valid_clips clips) pre = Inr sel \<and>
    get_embedding pt = Inl msg \<longrightarrow>
      match_clips get_embedding run_extract analysis clips threshold top_k
        = Inl (EmbeddingError msg)) \<and>
   (pt \<in> set (extract_points analysis) \<and> get_embedding pt = Inl msg \<longrightarrow>
      (\<exists>err. match_clips get_embedding run_extract analysis clips threshold top_k = Inl err))"
proof -
  have first: "extract_points analysis = pre @ pt # post \<and>
    match_points get_embedding threshold top_k (valid_clips clips) pre = Inr sel \<and>
    get_embedding pt = Inl msg \<longrightarrow>
      match_clips get_embedding run_extract analysis clips threshold top_k
        = Inl (EmbeddingError msg)"
    by (simp add: match_clips_def match_points_append)
  have any: "pt \<in> set (extract_points analysis) \<and> get_embedding pt = Inl msg \<longrightarrow>
      (\<exists>err. match_clips get_embedding run_extract analysis clips threshold top_k = Inl err)"
  proof
    assume "pt \<in> set (extract_points analysis) \<and> get_embedding pt = Inl msg"
    then obtain err where
      "match_points get_embedding threshold top_k (valid_clips clips) (extract_points analysis)
         = Inl err"
      using match_points_embedding_fails by blast
    then show "\<exists>err. match_clips get_embedding run_extract analysis clips threshold top_k = Inl err"
      by (simp add: match_clips_def)
  qed
  from first any show ?thesis by blast
qed

lemma example_two_points:
  "extract_points (asc ''A. x\<newline>B. y'') = [asc ''A. x'', asc ''B. y'']"
  by (simp add: extract_points_def asc_def strip_def is_space_def point_prefixes_def
      startswith_def)

text \<open>
  Two points, of which the second cannot be embedded: the first is matched, then the
  matching step raises.
\<close>

theorem match_clips_embedding_failure_witness:
  "extract_points (asc ''A. x\<newline>B. y'') = [asc ''A. x''] @ asc ''B. y'' # [] \<and>
   match_clips (\<lambda>p. if p = asc ''B. y'' then Inl ''throttled'' else Inr [Fin 1, Fin 0])
     (\<lambda>_. None) (asc ''A. x\<newline>B. y'')
     (build_clips ''v.mp4'' ''out'' 3 [Some [Fin 3, Fin 4]]) (Fin 0.05) 3
   = Inl (EmbeddingError ''throttled'')"
proof -
  let ?g = "\<lambda>p. if p = asc ''B. y'' then Inl ''throttled'' else Inr [Fin 1, Fin 0 :: pyfloat]"
  have p: "extract_points (asc ''A. x\<newline>B. y'') = [asc ''A. x''] @ asc ''B. y'' # []"
    by (simp add: example_two_points)
  have ne: "asc ''A. x'' \<noteq> asc ''B. y''"
    by (simp add: asc_def)
  have m: "match_points ?g (Fin 0.05) 3
             (valid_clips (build_clips ''v.mp4'' ''out'' 3 [Some [Fin 3, Fin 4]])) [asc ''A. x'']
           = Inr [clip_copy (make_clip ''v.mp4'' ''out'' 3 0 (Some [Fin 3, Fin 4])) (Fin (3 / 5))
                    (asc ''A. x'')]"
    by (simp add: ne build_clips_def valid_clips_def make_clip_def he_cosine_examples fgt_def
        sort_desc_def slice_to_def)
  have f: "?g (asc ''B. y'') = Inl ''throttled''"
    by simp
  show ?thesis
    using p m f
      match_clips_embedding_failure [where get_embedding = ?g and analysis = "asc ''A. x\<newline>B. y''"
        and pre = "[asc ''A. x'']" and pt = "asc ''B. y''" and post = "[]" and msg = "''throttled''"
        and threshold = "Fin 0.05" and top_k = 3
        and clips = "build_clips ''v.mp4'' ''out'' 3 [Some [Fin 3, Fin 4]]"
        and run_extract = "\<lambda>_. None"]
    by simp
qed

text \<open>
  Claim C4 as stated fails: with two points, of which the first cannot be embedded and
  the second can, the matching step raises the embedding error instead of going on
  with the second point.
\<close>

theorem match_clips_embedding_failure_counterexample:
  "extract_points (asc ''A. x\<newline>B. y'') = [asc ''A. x'', asc ''B. y''] \<and>
   embed_except (asc ''A. x'') (asc ''A. x'') = Inl ''throttled'' \<and>
   embed_except (asc ''A. x'') (asc ''B. y'') = Inr [Fin 1, Fin 0] \<and>
   match_clips (embed_except (asc ''A. x'')) (env_run_extract env_all_up)
     (asc ''A. x\<newline>B. y'')
     (build_clips ''v.mp4'' ''out'' 3 [Some [Fin 3, Fin 4]]) (Fin 0.05) 3
   = Inl (EmbeddingError ''throttled'')"
  by (simp add: match_clips_def example_two_points embed_except_def) (simp add: asc_def)

section \<open>Which stages end the job\<close>

lemma match_clips_no_points_Nil:
  "extract_points analysis = [] \<Longrightarrow>
   match_clips get_embedding run_extract analysis clips threshold top_k = Inr []"
  by (simp add: match_clips_def unique_clips_of_def filter_overlaps_def)

text \<open>
  Claim C5, as amended. When no labeled point parses from the analysis text, the
  matching step raises nothing and returns the empty selection. The job then fails at
  the stitching stage, stage 6, which raises on an empty selection.
\<close>

theorem match_clips_no_points:
  assumes "final = process_highlight e (new_job theme video work)"
    and "crit = generate_criteria e theme"
    and "cpath = compress_video e video (path_join work ''compressed.mp4'') 100"
  shows
    "(extract_points analysis = [] \<longrightarrow>
        match_clips get_embedding run_extract analysis clips threshold top_k = Inr []) \<and>
     (\<forall>a cl. env_analyze e cpath crit = Inr a \<and> extract_points a = [] \<and>
        extract_clips_with_embeddings e cpath 3 = Inr cl \<longrightarrow>
        job_status final = Failed \<and> job_error final = Some NoClipsToStitch \<and>
        job_current_step final = 6 \<and> job_clips_count final = Some 0 \<and>
        job_clips final = Some (ClipsInfo []))"
proof -
  note f = after_stage2_fields [of e theme video work]
  have 1: "extract_points analysis = [] \<longrightarrow>
        match_clips get_embedding run_extract analysis clips threshold top_k = Inr []"
    by (simp add: match_clips_no_points_Nil)
  have 2: "\<forall>a cl. env_analyze e cpath crit = Inr a \<and> extract_points a = [] \<and>
        extract_clips_with_embeddings e cpath 3 = Inr cl \<longrightarrow>
        job_status final = Failed \<and> job_error final = Some NoClipsToStitch \<and>
        job_current_step final = 6 \<and> job_clips_count final = Some 0 \<and>
        job_clips final = Some (ClipsInfo [])"
    unfolding assms process_highlight_unfold
    by (simp add: Let_def stage3_def stage4_def stage5_def stage6_def f
        match_clips_no_points_Nil create_highlight_video_def)
  from 1 2 show ?thesis by blast
qed

lemma example_no_points: "extract_points (asc ''no markers here'') = []"
  by (simp add: extract_points_def asc_def strip_def is_space_def point_prefixes_def
      startswith_def)

text \<open>
  An analysis without markers: the matching step returns the empty list and the job fails
  at stage 6.
\<close>

theorem match_clips_no_points_witness:
  "extract_points (asc ''no markers here'') = [] \<and>
   match_clips (\<lambda>_. Inl ''unavailable'') (\<lambda>_. Some ''unavailable'') (asc ''no markers here'')
     (build_clips ''v.mp4'' ''out'' 3 [Some [Fin 3, Fin 4]]) (Fin 0.05) 3 = Inr [] \<and>
   job_status (process_highlight
      (env_all_down\<lparr>env_analyze := (\<lambda>_ _. Inr (asc ''no markers here'')),
                    env_segment_embeddings := (\<lambda>_ _. Inr [Some [Fin 3, Fin 4]])\<rparr>)
      (new_job (asc ''goals'') ''v.mp4'' ''w'')) = Failed \<and>
   job_error (process_highlight
      (env_all_down\<lparr>env_analyze := (\<lambda>_ _. Inr (asc ''no markers here'')),
                    env_segment_embeddings := (\<lambda>_ _. Inr [Some [Fin 3, Fin 4]])\<rparr>)
      (new_job (asc ''goals'') ''v.mp4'' ''w'')) = Some NoClipsToStitch \<and>
   job_current_step (process_highlight
      (env_all_down\<lparr>env_analyze := (\<lambda>_ _. Inr (asc ''no markers here'')),
                    env_segment_embeddings := (\<lambda>_ _. Inr [Some [Fin 3, Fin 4]])\<rparr>)
      (new_job (asc ''goals'') ''v.mp4'' ''w'')) = 6"
proof -
  let ?e = "env_all_down\<lparr>env_analyze := (\<lambda>_ _. Inr (asc ''no markers here'')),
                         env_segment_embeddings := (\<lambda>_ _. Inr [Some [Fin 3, Fin 4]])\<rparr>"
  have x: "\<And>v. extract_clips_with_embeddings ?e v 3
              = Inr (build_clips v ''out'' 3 [Some [Fin 3, Fin 4]])"
    by (simp add: extract_clips_with_embeddings_def)
  show ?thesis
    using example_no_points
      match_clips_no_points [where e = ?e and theme = "asc ''goals''" and video = "''v.mp4''"
        and work = "''w''" and analysis = "asc ''no markers here''"
        and get_embedding = "\<lambda>_. Inl ''unavailable''"
        and run_extract = "\<lambda>_. Some ''unavailable''"
        and clips = "build_clips ''v.mp4'' ''out'' 3 [Some [Fin 3, Fin 4]]"
        and threshold = "Fin 0.05" and top_k = 3,
        OF refl refl refl]
    by (simp add: x)
qed

text \<open>
  Claim C5 as stated fails: on a text without any marker the matching step returns the
  empty list and no error.
\<close>

theorem match_clips_no_points_counterexample:
  "extract_points (asc ''no markers here'') = [] \<and>
   match_clips (env_get_embedding env_all_up) (env_run_extract env_all_up)
     (asc ''no markers here'')
     (build_clips ''v.mp4'' ''out'' 3 [Some [Fin 3, Fin 4]]) (Fin 0.05) 3 = Inr []"
  by (simp add: example_no_points match_clips_no_points_Nil)




lemma compress_video_fallback:
  "(env_probe e input = Inl msg \<longrightarrow> compress_video e input out m = input) \<and>
   (env_probe e input = Inr (sz, d) \<and> target_bitrate m d = Inl msg \<longrightarrow>
      compress_video e input out m = input) \<and>
   (env_probe e input = Inr (sz, d) \<and> target_bitrate m d = Inr br \<and>
    env_run_compress e input out br = Inl msg \<longrightarrow> compress_video e input out m = input)"
  by (simp add: compress_video_def)








end
